theory Spec2Isabelle
  imports Main
begin

section \<open>Strings and numbers of the script\<close>

text \<open>
  A JavaScript string is a sequence of UTF-16 code units. The script's regular
  expression has no \<^verbatim>\<open>u\<close> flag, so it works on code units too. Code units are
  natural numbers here; no arithmetic is done on them.
\<close>

type_synonym jsstring = "nat list"

definition js :: "string \<Rightarrow> jsstring" where
  "js s = map of_char s"

text \<open>
  The values of type \<^verbatim>\<open>number\<close> that the script can produce: \<^verbatim>\<open>NaN\<close>,
  the two infinities, and \<open>Num i\<close>, the double whose value is the integer \<open>i\<close>.
  Every integer up to \<open>2^53\<close> in magnitude is a double; a larger one is a double
  only if it fits in 53 significant bits.
\<close>

datatype jsnum = NaN | PosInf | NegInf | Num int

text \<open>The number of bits of a natural number.\<close>

fun bitlen :: "nat \<Rightarrow> nat" where
  "bitlen n = (if n = 0 then 0 else Suc (bitlen (n div 2)))"

declare bitlen.simps [simp del]

text \<open>
  The nearest natural number with at most 53 significant bits, a tie going to the
  even significand: what IEEE 754 rounding to nearest gives for an integer.
\<close>

definition round_nat :: "nat \<Rightarrow> nat" where
  "round_nat n =
     (if n < 2 ^ 53 then n
      else let e = bitlen n - 53; q = n div 2 ^ e; r = n mod 2 ^ e
           in if 2 ^ e < 2 * r \<or> (2 * r = 2 ^ e \<and> odd q) then (q + 1) * 2 ^ e else q * 2 ^ e)"

text \<open>The double nearest to an integer; beyond the largest double it is an infinity.\<close>

definition double_of_int :: "int \<Rightarrow> jsnum" where
  "double_of_int i =
     (let n = round_nat (nat \<bar>i\<bar>)
      in if 2 ^ 1024 \<le> n then (if i < 0 then NegInf else PosInf)
         else Num (if i < 0 then - int n else int n))"

text \<open>
  \<^verbatim>\<open>a + b\<close> on numbers: the exact sum rounded to the nearest double.
\<close>

fun jsadd :: "jsnum \<Rightarrow> jsnum \<Rightarrow> jsnum" where
  "jsadd (Num a) (Num b) = double_of_int (a + b)"
| "jsadd NaN _ = NaN"
| "jsadd _ NaN = NaN"
| "jsadd PosInf NegInf = NaN"
| "jsadd NegInf PosInf = NaN"
| "jsadd PosInf _ = PosInf"
| "jsadd _ PosInf = PosInf"
| "jsadd NegInf _ = NegInf"
| "jsadd _ NegInf = NegInf"

text \<open>White space as \<^verbatim>\<open>\s\<close> and \<^verbatim>\<open>parseInt\<close> see it (ECMAScript
  WhiteSpace and LineTerminator).\<close>

definition is_js_space :: "nat \<Rightarrow> bool" where
  "is_js_space c =
     (c = 9 \<or> c = 10 \<or> c = 11 \<or> c = 12 \<or> c = 13 \<or> c = 32 \<or> c = 0xA0 \<or> c = 0x1680
      \<or> (0x2000 \<le> c \<and> c \<le> 0x200A) \<or> c = 0x2028 \<or> c = 0x2029 \<or> c = 0x202F
      \<or> c = 0x205F \<or> c = 0x3000 \<or> c = 0xFEFF)"

subsection \<open>Regular expressions with backtracking\<close>

text \<open>
  The fragment of ECMAScript regular expressions that the script's one pattern uses:
  literals, character classes, concatenation, the greedy quantifiers
  \<^verbatim>\<open>*\<close>, \<^verbatim>\<open>+\<close>, \<^verbatim>\<open>?\<close> and capture groups.
\<close>

datatype cls = Range nat nat | One nat | WhiteSpace

datatype regex =
    Lit nat
  | Class "cls list"
  | Seq regex regex
  | Star regex
  | Plus regex
  | Opt regex
  | Group nat regex

type_synonym caps = "nat \<rightharpoonup> jsstring"

fun in_cls :: "nat \<Rightarrow> cls \<Rightarrow> bool" where
  "in_cls c (Range lo hi) = (lo \<le> c \<and> c \<le> hi)"
| "in_cls c (One x) = (c = x)"
| "in_cls c WhiteSpace = is_js_space c"

fun rsize :: "regex \<Rightarrow> nat" where
  "rsize (Lit _) = 1"
| "rsize (Class _) = 1"
| "rsize (Seq a b) = rsize a + rsize b + 1"
| "rsize (Star r) = rsize r + 1"
| "rsize (Plus r) = rsize r + 2"
| "rsize (Opt r) = rsize r + 1"
| "rsize (Group _ r) = rsize r + 1"

text \<open>
  \<open>ms r (s, m)\<close> lists every way \<open>r\<close> can match a prefix of \<open>s\<close>, as the rest of the
  input and the captures after the match, in the order in which a backtracking
  matcher tries them: the head of the list is the match it takes. A greedy
  quantifier tries one more iteration before it tries to stop; an iteration of
  \<^verbatim>\<open>*\<close> or \<^verbatim>\<open>?\<close> that consumes nothing is rejected.
\<close>

function ms :: "regex \<Rightarrow> jsstring \<times> caps \<Rightarrow> (jsstring \<times> caps) list" where
  "ms (Lit c) (s, m) =
     (case s of [] \<Rightarrow> [] | x # xs \<Rightarrow> if x = c then [(xs, m)] else [])"
| "ms (Class cs) (s, m) =
     (case s of [] \<Rightarrow> [] | x # xs \<Rightarrow> if list_ex (in_cls x) cs then [(xs, m)] else [])"
| "ms (Seq a b) (s, m) = concat (map (ms b) (ms a (s, m)))"
| "ms (Star r) (s, m) =
     concat (map (ms (Star r)) (filter (\<lambda>st. length (fst st) < length s) (ms r (s, m))))
     @ [(s, m)]"
| "ms (Plus r) (s, m) = concat (map (ms (Star r)) (ms r (s, m)))"
| "ms (Opt r) (s, m) = filter (\<lambda>st. length (fst st) < length s) (ms r (s, m)) @ [(s, m)]"
| "ms (Group k r) (s, m) =
     map (\<lambda>st. (fst st, (snd st)(k \<mapsto> take (length s - length (fst st)) s))) (ms r (s, m))"
  by pat_completeness auto
termination
  by (relation "measures [\<lambda>(r, st). rsize r, \<lambda>(r, st). length (fst st)]") auto

text \<open>
  \<^verbatim>\<open>text.match(re)\<close> for a pattern without the \<^verbatim>\<open>g\<close> flag: the match at the
  leftmost start position that has one; \<open>None\<close> is JavaScript's \<^verbatim>\<open>null\<close>. The
  result maps a group's number to its capture (\<open>None\<close>: the group took no part).
\<close>

fun exec :: "regex \<Rightarrow> jsstring \<Rightarrow> caps option" where
  "exec r [] = (case ms r ([], Map.empty) of st # _ \<Rightarrow> Some (snd st) | [] \<Rightarrow> None)"
| "exec r (x # t) =
     (case ms r (x # t, Map.empty) of st # _ \<Rightarrow> Some (snd st) | [] \<Rightarrow> exec r t)"

subsection \<open>parseInt\<close>

text \<open>
  \<^verbatim>\<open>parseInt(string)\<close> with no radix: leading white space is dropped, then a sign,
  then a \<^verbatim>\<open>0x\<close> prefix (which selects radix 16); the longest prefix of digits is
  the number, \<^verbatim>\<open>NaN\<close> if it is empty. The value of the digits is taken as it
  is: for a number that is not a double the rounding is left out here, and so it
  is in the formatter below.
\<close>

definition digit_val :: "nat \<Rightarrow> nat \<Rightarrow> nat option" where
  "digit_val radix c =
     (let v = (if 48 \<le> c \<and> c \<le> 57 then c - 48
               else if 97 \<le> c \<and> c \<le> 122 then c - 87
               else if 65 \<le> c \<and> c \<le> 90 then c - 55
               else 36)
      in if v < radix then Some v else None)"

definition digits_value :: "nat \<Rightarrow> jsstring \<Rightarrow> nat" where
  "digits_value radix z = foldl (\<lambda>acc c. acc * radix + the (digit_val radix c)) 0 z"

definition parse_digits :: "nat \<Rightarrow> int \<Rightarrow> jsstring \<Rightarrow> jsnum" where
  "parse_digits radix sign s =
     (let z = takeWhile (\<lambda>c. digit_val radix c \<noteq> None) s
      in if z = [] then NaN else Num (sign * int (digits_value radix z)))"

definition strip_prefix :: "int \<Rightarrow> jsstring \<Rightarrow> jsnum" where
  "strip_prefix sign s =
     (case s of
        a # b # rest \<Rightarrow>
          if a = 48 \<and> (b = 120 \<or> b = 88) then parse_digits 16 sign rest
          else parse_digits 10 sign s
      | _ \<Rightarrow> parse_digits 10 sign s)"

definition parseInt :: "jsstring \<Rightarrow> jsnum" where
  "parseInt inputString =
     (case dropWhile is_js_space inputString of
        [] \<Rightarrow> NaN
      | c # rest \<Rightarrow>
          if c = 45 then strip_prefix (- 1) rest
          else if c = 43 then strip_prefix 1 rest
          else strip_prefix 1 (c # rest))"

section \<open>Payment amounts\<close>

record PaymentAmount =
  moneyAmount :: jsnum
  pointAmount :: jsnum

record Order =
  name :: jsstring
  status :: jsstring
  amount :: PaymentAmount

text \<open>The code units of the two Japanese words of the amount format.\<close>

definition yen :: nat where
  "yen = 0x5186"

definition pointo :: jsstring where
  "pointo = [0x30DD, 0x30A4, 0x30F3, 0x30C8]"

text \<open>The character class \<^verbatim>\<open>[0-9,]\<close>.\<close>

definition digit_or_comma :: regex where
  "digit_or_comma = Class [Range 48 57, One 44]"

text \<open>
  The pattern of \<^verbatim>\<open>parsePaymentAmount\<close>, group by group:
  \<^verbatim>\<open>([0-9,]+)\<close> is group 1, the optional \<^verbatim>\<open>(\s*\(([0-9,]+)....\))?\<close> is
  group 2 and the digits inside it are group 3.
\<close>

definition amount_re :: regex where
  "amount_re =
     Seq (Group 1 (Plus digit_or_comma))
    (Seq (Lit yen)
         (Opt (Group 2
           (Seq (Star (Class [WhiteSpace]))
           (Seq (Lit 40)
           (Seq (Group 3 (Plus digit_or_comma))
           (Seq (Lit 0x30DD) (Seq (Lit 0x30A4) (Seq (Lit 0x30F3) (Seq (Lit 0x30C8)
                (Lit 41)))))))))))"

text \<open>\<^verbatim>\<open>s.replace(/,/g, '')\<close>\<close>

definition remove_commas :: "jsstring \<Rightarrow> jsstring" where
  "remove_commas s = filter (\<lambda>c. c \<noteq> 44) s"

definition parsePaymentAmount :: "jsstring \<Rightarrow> PaymentAmount option" where
  "parsePaymentAmount txt =
     (case exec amount_re txt of
        None \<Rightarrow> None
      | Some match \<Rightarrow>
          Some \<lparr> moneyAmount =
                   (case match 1 of Some g \<Rightarrow> parseInt (remove_commas g) | None \<Rightarrow> Num 0),
                 pointAmount =
                   (case match 3 of Some g \<Rightarrow> parseInt (remove_commas g) | None \<Rightarrow> Num 0) \<rparr>)"

subsection \<open>Formatting\<close>

text \<open>
  \<^verbatim>\<open>new Intl.NumberFormat()\<close> formats with the default locale of the browser,
  which the script does not choose. \<^verbatim>\<open>formatPaymentAmount\<close> therefore takes the
  formatter as a parameter. \<open>intl_format sep\<close> is the formatter of a locale that
  writes integers with the digits 0 to 9 in groups of three separated by \<open>sep\<close>:
  a comma for ja-JP and en-US, a full stop for de-DE.
\<close>

fun decimal :: "nat \<Rightarrow> jsstring" where
  "decimal n = (if n < 10 then [48 + n] else decimal (n div 10) @ [48 + n mod 10])"

declare decimal.simps [simp del]

fun group3 :: "jsstring \<Rightarrow> jsstring \<Rightarrow> jsstring" where
  "group3 sep ds =
     (if length ds \<le> 3 then ds
      else group3 sep (take (length ds - 3) ds) @ sep @ drop (length ds - 3) ds)"

declare group3.simps [simp del]

fun intl_format :: "jsstring \<Rightarrow> jsnum \<Rightarrow> jsstring" where
  "intl_format sep NaN = js ''NaN''"
| "intl_format sep PosInf = [0x221E]"
| "intl_format sep NegInf = [45, 0x221E]"
| "intl_format sep (Num i) =
     (if i < 0 then 45 # group3 sep (decimal (nat (- i))) else group3 sep (decimal (nat i)))"

definition formatPaymentAmount :: "(jsnum \<Rightarrow> jsstring) \<Rightarrow> PaymentAmount \<Rightarrow> jsstring" where
  "formatPaymentAmount format paymentAmount =
     format (moneyAmount paymentAmount) @ [yen] @ js '' ('' @
     format (pointAmount paymentAmount) @ pointo @ js '')''"

section \<open>The document tree\<close>

text \<open>
  A document is a tree of nodes. \<open>Doc q cs\<close> is the document node, the root of
  the tree; \<open>q\<close> says that the document is in quirks mode (a page without a
  doctype is). An element has a tag name (in lower case, as the parser of hypertext
  leaves it), attributes and children. \<open>Markup s\<close> stands for the children
  that assigning \<open>s\<close> to \<^verbatim>\<open>innerHTML\<close> gives an element the script creates:
  the fragment parser is not modelled, the markup is kept as it is.
\<close>

datatype node =
    Doc bool "node list"
  | Element string "(string \<times> jsstring) list" "node list"
  | Text jsstring
  | Markup jsstring

text \<open>
  A reference to a node of the live document is the path to it from the root:
  the index of a child at every level.
\<close>

type_synonym path = "nat list"

fun children :: "node \<Rightarrow> node list" where
  "children (Doc q cs) = cs"
| "children (Element _ _ cs) = cs"
| "children _ = []"

fun node_at :: "node \<Rightarrow> path \<Rightarrow> node option" where
  "node_at n [] = Some n"
| "node_at n (i # p) =
     (if i < length (children n) then node_at (children n ! i) p else None)"

fun tag_of :: "node \<Rightarrow> string option" where
  "tag_of (Element t _ _) = Some t"
| "tag_of _ = None"

fun attrs_of :: "node \<Rightarrow> (string \<times> jsstring) list" where
  "attrs_of (Element _ as _) = as"
| "attrs_of _ = []"

definition is_element :: "node \<Rightarrow> bool" where
  "is_element n = (tag_of n \<noteq> None)"

definition element_at :: "node \<Rightarrow> path \<Rightarrow> bool" where
  "element_at doc p = (case node_at doc p of None \<Rightarrow> False | Some n \<Rightarrow> is_element n)"

text \<open>The index of a list, \<open>None\<close> where JavaScript gives \<^verbatim>\<open>undefined\<close>.\<close>

definition nth_opt :: "'a list \<Rightarrow> nat \<Rightarrow> 'a option" where
  "nth_opt xs i = (if i < length xs then Some (xs ! i) else None)"

text \<open>\<^verbatim>\<open>textContent\<close> of an element: the text of its descendants, in order.\<close>

fun textContent :: "node \<Rightarrow> jsstring" where
  "textContent (Doc q cs) = concat (map textContent cs)"
| "textContent (Element _ _ cs) = concat (map textContent cs)"
| "textContent (Text s) = s"
| "textContent (Markup s) = []"

subsection \<open>Selectors\<close>

text \<open>
  The selectors of the script are compound selectors joined by the child
  combinator \<^verbatim>\<open>>\<close>. \<^verbatim>\<open>tbody > tr > td:nth-of-type(2)\<close> is
  \<open>[[Tag ''tbody''], [Tag ''tr''], [Tag ''td'', NthOfType 2]]\<close>.
\<close>

datatype simple = Tag string | AttrEq string jsstring | HasClass jsstring | NthOfType nat

type_synonym compound = "simple list"

type_synonym selector = "compound list"

text \<open>The tokens of a \<^verbatim>\<open>class\<close> attribute: split at ASCII white space.\<close>

definition is_ascii_space :: "nat \<Rightarrow> bool" where
  "is_ascii_space c = (c = 9 \<or> c = 10 \<or> c = 12 \<or> c = 13 \<or> c = 32)"

fun tokens :: "jsstring \<Rightarrow> jsstring \<Rightarrow> jsstring list" where
  "tokens cur [] = (if cur = [] then [] else [cur])"
| "tokens cur (c # s) =
     (if is_ascii_space c then (if cur = [] then tokens [] s else cur # tokens [] s)
      else tokens (cur @ [c]) s)"

text \<open>
  The position of the node at index \<open>i\<close> among the siblings \<open>sibs\<close> that have
  its tag, counted from 1.
\<close>

definition index_of_type :: "node list \<Rightarrow> nat \<Rightarrow> nat" where
  "index_of_type sibs i =
     Suc (length (filter (\<lambda>n. tag_of n = tag_of (sibs ! i)) (take i sibs)))"

text \<open>The mode of a document, read at its root.\<close>

fun quirks_mode :: "node \<Rightarrow> bool" where
  "quirks_mode (Doc q _) = q"
| "quirks_mode _ = False"

text \<open>ASCII letters in lower case, the other code units unchanged.\<close>

definition ascii_lower :: "jsstring \<Rightarrow> jsstring" where
  "ascii_lower s = map (\<lambda>c. if 65 \<le> c \<and> c \<le> 90 then c + 32 else c) s"

text \<open>
  A selector is matched against an element \<open>n\<close> in its place in the tree: \<open>i\<close> is
  the index of \<open>n\<close> among the children of its parent, and \<open>anc\<close> are its
  ancestors, the parent first. \<open>q\<close> is the mode of the document: in quirks mode
  a class selector matches a class name whatever the case of its ASCII letters.
\<close>

fun matches_simple :: "bool \<Rightarrow> node \<Rightarrow> nat \<Rightarrow> node list \<Rightarrow> simple \<Rightarrow> bool" where
  "matches_simple q n i anc (Tag t) = (tag_of n = Some t)"
| "matches_simple q n i anc (AttrEq a v) = (map_of (attrs_of n) a = Some v)"
| "matches_simple q n i anc (HasClass c) =
     (case map_of (attrs_of n) ''class'' of
        None \<Rightarrow> False
      | Some v \<Rightarrow>
          if q then ascii_lower c \<in> set (map ascii_lower (tokens [] v))
          else c \<in> set (tokens [] v))"
| "matches_simple q n i anc (NthOfType k) =
     (case anc of
        [] \<Rightarrow> False
      | par # _ \<Rightarrow> index_of_type (children par) i = k)"

definition matches_compound :: "bool \<Rightarrow> node \<Rightarrow> nat \<Rightarrow> node list \<Rightarrow> compound \<Rightarrow> bool" where
  "matches_compound q n i anc c = (is_element n \<and> list_all (matches_simple q n i anc) c)"

text \<open>
  \<open>matches_up q cs rp chain\<close>: the compounds \<open>cs\<close>, innermost first, match the
  first node of \<open>chain\<close>, its parent, its grandparent and so on. \<open>chain\<close> is a
  node followed by its ancestors, \<open>rp\<close> the path to the node, last index first.
\<close>

fun matches_up :: "bool \<Rightarrow> compound list \<Rightarrow> nat list \<Rightarrow> node list \<Rightarrow> bool" where
  "matches_up q [] rp chain = True"
| "matches_up q [c] (i # rp) (n # anc) = matches_compound q n i anc c"
| "matches_up q (c # cs) (i # rp) (n # anc) =
     (matches_compound q n i anc c \<and> matches_up q cs rp anc)"
| "matches_up q (c # cs) _ _ = False"

definition matches :: "bool \<Rightarrow> selector \<Rightarrow> nat list \<Rightarrow> node list \<Rightarrow> bool" where
  "matches q sel rp chain = (sel \<noteq> [] \<and> matches_up q (rev sel) rp chain)"

subsection \<open>Queries\<close>

text \<open>The node at a path, followed by its ancestors up to the root.\<close>

fun chain_at :: "node \<Rightarrow> path \<Rightarrow> node list \<Rightarrow> node list option" where
  "chain_at n [] anc = Some (n # anc)"
| "chain_at n (i # p) anc =
     (if i < length (children n) then chain_at (children n ! i) p (n # anc) else None)"

text \<open>
  \<open>select_from q sel i cs rp anc\<close> walks the nodes \<open>cs\<close> and what lies below
  them in document order and lists the paths of the elements that match \<open>sel\<close>.
  \<open>cs\<close> are the children from index \<open>i\<close> on of the first node of \<open>anc\<close>,
  whose path is \<open>rp\<close> reversed.
\<close>

lemma size_children: "size_list size (children c) < Suc (size c)"
  by (cases c) simp_all

function select_from ::
  "bool \<Rightarrow> selector \<Rightarrow> nat \<Rightarrow> node list \<Rightarrow> nat list \<Rightarrow> node list \<Rightarrow> path list" where
  "select_from q sel i [] rp anc = []"
| "select_from q sel i (c # cs) rp anc =
     (if matches q sel (i # rp) (c # anc) then [rev (i # rp)] else [])
     @ select_from q sel 0 (children c) (i # rp) (c # anc)
     @ select_from q sel (Suc i) cs rp anc"
  by pat_completeness auto
termination
  by (relation "measure (\<lambda>(q, sel, i, cs, rp, anc). size_list size cs)")
     (auto intro!: less_le_trans [OF size_children])

text \<open>
  \<^verbatim>\<open>e.querySelectorAll(sel)\<close>: the descendants of \<open>e\<close> that match, in document
  order. The ancestors that a selector names may lie outside \<open>e\<close>.
\<close>

definition querySelectorAll :: "node \<Rightarrow> path \<Rightarrow> selector \<Rightarrow> path list" where
  "querySelectorAll doc e sel =
     (case chain_at doc e [] of
        None \<Rightarrow> []
      | Some chain \<Rightarrow>
          select_from (quirks_mode doc) sel 0 (children (hd chain)) (rev e) chain)"

definition querySelector :: "node \<Rightarrow> path \<Rightarrow> selector \<Rightarrow> path option" where
  "querySelector doc e sel = nth_opt (querySelectorAll doc e sel) 0"

definition getElementsByTagName :: "node \<Rightarrow> path \<Rightarrow> string \<Rightarrow> path list" where
  "getElementsByTagName doc e t = querySelectorAll doc e [[Tag t]]"

definition nextElementSibling :: "node \<Rightarrow> path \<Rightarrow> path option" where
  "nextElementSibling doc p =
     (case p of
        [] \<Rightarrow> None
      | _ # _ \<Rightarrow>
          (case node_at doc (butlast p) of
             None \<Rightarrow> None
           | Some par \<Rightarrow>
               (case filter (\<lambda>j. is_element (children par ! j))
                       [Suc (last p) ..< length (children par)] of
                  [] \<Rightarrow> None
                | j # _ \<Rightarrow> Some (butlast p @ [j]))))"

text \<open>\<^verbatim>\<open>node.parentNode\<close>: the root of a tree has none.\<close>

definition parentNode :: "node \<Rightarrow> path \<Rightarrow> path option" where
  "parentNode doc p =
     (if p = [] \<or> node_at doc p = None then None else Some (butlast p))"

text \<open>
  \<^verbatim>\<open>document.body\<close>: the first child of the root element that is a
  \<^verbatim>\<open>body\<close> or a \<^verbatim>\<open>frameset\<close>.
\<close>

definition body :: "node \<Rightarrow> path option" where
  "body doc =
     (case filter (\<lambda>i. tag_of (children doc ! i) = Some ''html'') [0 ..< length (children doc)] of
        [] \<Rightarrow> None
      | h # _ \<Rightarrow>
          (case filter (\<lambda>i. tag_of (children (children doc ! h) ! i) \<in> {Some ''body'', Some ''frameset''})
                  [0 ..< length (children (children doc ! h))] of
             [] \<Rightarrow> None
           | b # _ \<Rightarrow> Some [h, b]))"

text \<open>
  \<^verbatim>\<open>innerText\<close> and \<^verbatim>\<open>textContent\<close> of the element at a path. The orders
  page comes from \<^verbatim>\<open>DOMParser\<close> and is never rendered, and for an element that
  is not rendered \<^verbatim>\<open>innerText\<close> is \<^verbatim>\<open>textContent\<close>.
\<close>

definition textContent_at :: "node \<Rightarrow> path \<Rightarrow> jsstring" where
  "textContent_at doc p = (case node_at doc p of None \<Rightarrow> [] | Some n \<Rightarrow> textContent n)"

definition innerText :: "node \<Rightarrow> path \<Rightarrow> jsstring" where
  "innerText doc p = textContent_at doc p"

subsection \<open>Changing the tree\<close>

text \<open>\<^verbatim>\<open>parent.appendChild(child)\<close> makes \<open>child\<close> the last child of \<open>parent\<close>.\<close>

fun appendChild :: "node \<Rightarrow> node \<Rightarrow> node" where
  "appendChild (Doc q cs) child = Doc q (cs @ [child])"
| "appendChild (Element t as cs) child = Element t as (cs @ [child])"
| "appendChild n child = n"

fun set_children :: "node \<Rightarrow> node list \<Rightarrow> node" where
  "set_children (Doc q _) cs = Doc q cs"
| "set_children (Element t as _) cs = Element t as cs"
| "set_children n cs = n"

text \<open>The tree with the node at a path replaced by its image under \<open>f\<close>.\<close>

fun update_at :: "node \<Rightarrow> path \<Rightarrow> (node \<Rightarrow> node) \<Rightarrow> node" where
  "update_at n [] f = f n"
| "update_at n (i # p) f =
     (if i < length (children n)
      then set_children n ((children n)[i := update_at (children n ! i) p f])
      else n)"

section \<open>The script\<close>

subsection \<open>Errors\<close>

text \<open>
  \<open>Error m\<close> is \<^verbatim>\<open>throw new Error(m)\<close>; \<open>TypeError\<close> is what the engine
  throws when a property of \<^verbatim>\<open>null\<close> or \<^verbatim>\<open>undefined\<close> is read. A function
  that may throw returns a sum, the error on the left.
\<close>

datatype error = Error jsstring | TypeError

definition and_then :: "error + 'a \<Rightarrow> ('a \<Rightarrow> error + 'b) \<Rightarrow> error + 'b" where
  "and_then r f = (case r of Inl e \<Rightarrow> Inl e | Inr x \<Rightarrow> f x)"

definition ensure :: "path option \<Rightarrow> jsstring \<Rightarrow> error + path" where
  "ensure maybeElem message =
     (case maybeElem of None \<Rightarrow> Inl (Error message) | Some elem \<Rightarrow> Inr elem)"

subsection \<open>Locating the regions of the summary page\<close>

record LeftColumn =
  balanceTable :: path
  nisaTable :: path
  valuationTable :: path

record RightColumn =
  stockTable :: path
  fundTable :: path
  nisaFundTable :: path
  nisaTsumitateTable :: path

record MainPane =
  leftColumn :: LeftColumn
  rightColumn :: RightColumn

record AccountSummaryPage =
  summaryTable :: path
  allHeader :: path
  accountInfo :: path
  mainPane :: MainPane

text \<open>
  The text of the first row of a table, \<open>None\<close> when the table has no row:
  \<^verbatim>\<open>table.querySelector('tr:first-of-type')?.textContent\<close>.
\<close>

definition tableTitle :: "node \<Rightarrow> path \<Rightarrow> jsstring option" where
  "tableTitle doc table =
     map_option (textContent_at doc) (querySelector doc table [[Tag ''tr'', NthOfType 1]])"

definition findTitledTable :: "node \<Rightarrow> path list \<Rightarrow> jsstring \<Rightarrow> error + path" where
  "findTitledTable doc tables title =
     (case find (\<lambda>table. tableTitle doc table = Some title) tables of
        None \<Rightarrow> Inl (Error (js ''Table titled '' @ title @ js '' not found''))
      | Some element \<Rightarrow> Inr element)"

text \<open>
  The four captions, as code units. In the source they read: stocks (spot, specific
  account); investment trusts (amount, specific account); investment trusts
  (amount, NISA account (growth)); investment trusts (amount, NISA account
  (instalment)).
\<close>

definition stockTitle :: jsstring where
  "stockTitle =
     [0x682A, 0x5F0F, 0xFF08, 0x73FE, 0x7269, 0x2F, 0x7279, 0x5B9A, 0x9810, 0x308A, 0xFF09]"

definition fundTitle :: jsstring where
  "fundTitle =
     [0x6295, 0x8CC7, 0x4FE1, 0x8A17, 0xFF08, 0x91D1, 0x984D, 0x2F, 0x7279, 0x5B9A, 0x9810,
      0x308A, 0xFF09]"

definition nisaFundTitle :: jsstring where
  "nisaFundTitle =
     [0x6295, 0x8CC7, 0x4FE1, 0x8A17, 0xFF08, 0x91D1, 0x984D, 0x2F, 0x4E, 0x49, 0x53, 0x41,
      0x9810, 0x308A, 0xFF08, 0x6210, 0x9577, 0x6295, 0x8CC7, 0x67A0, 0xFF09, 0xFF09]"

definition nisaTsumitateTitle :: jsstring where
  "nisaTsumitateTitle =
     [0x6295, 0x8CC7, 0x4FE1, 0x8A17, 0xFF08, 0x91D1, 0x984D, 0x2F, 0x4E, 0x49, 0x53, 0x41,
      0x9810, 0x308A, 0xFF08, 0x3064, 0x307F, 0x305F, 0x3066, 0x6295, 0x8CC7, 0x67A0, 0xFF09,
      0xFF09]"

text \<open>
  \<^verbatim>\<open>accountSummaryPage(doc)\<close>. Every \<^verbatim>\<open>ensure\<close> and every
  \<^verbatim>\<open>findTitledTable\<close> may throw; the lookups run in the order of the source,
  the fields of the object literal in the order in which they are written.
  The type of \<^verbatim>\<open>doc.body\<close> is declared without \<^verbatim>\<open>null\<close>; a document with no
  body makes the first line throw a \<open>TypeError\<close>.
\<close>

definition accountSummaryPage :: "node \<Rightarrow> error + AccountSummaryPage" where
  "accountSummaryPage doc =
     (case body doc of
        None \<Rightarrow> Inl TypeError
      | Some body' \<Rightarrow>
     and_then (ensure (nth_opt (getElementsByTagName doc body' ''table'') 0)
                 (js ''Top-level table not found'')) (\<lambda>summaryTable'.
     and_then (ensure (querySelector doc summaryTable'
                         [[Tag ''map'', AttrEq ''name'' (js ''tab_ac'')]])
                 (js ''Tabs not found'')) (\<lambda>map'.
     and_then (ensure (nextElementSibling doc map')
                 (js ''Summary pane table not found'')) (\<lambda>summaryPaneTable.
     and_then (ensure (querySelector doc summaryPaneTable
                         [[Tag ''tbody''], [Tag ''tr''], [Tag ''td'', NthOfType 2]])
                 (js ''Summary pane not found'')) (\<lambda>summaryPane.
     let tables = querySelectorAll doc summaryPane [[Tag ''table'']] in
     and_then (ensure (nth_opt tables 0) (js ''allHeader not found'')) (\<lambda>allHeader'.
     and_then (ensure (nth_opt tables 1) (js ''accountInfo not found'')) (\<lambda>accountInfo'.
     and_then (ensure (nth_opt tables 3) (js ''mainPane not found'')) (\<lambda>mainPane'.
     and_then (ensure (querySelector doc mainPane'
                         [[Tag ''tbody''], [Tag ''tr''], [Tag ''td'', NthOfType 1]])
                 (js ''Left column not found'')) (\<lambda>leftColumn'.
     and_then (ensure (querySelector doc mainPane'
                         [[Tag ''tbody''], [Tag ''tr''], [Tag ''td'', NthOfType 3]])
                 (js ''Right column not found'')) (\<lambda>rightColumn'.
     let rightTables = querySelectorAll doc rightColumn' [[Tag ''table'']] in
     and_then (ensure (querySelector doc leftColumn' [[Tag ''table'', NthOfType 1]])
                 (js ''Balance table not found'')) (\<lambda>balanceTable'.
     and_then (ensure (querySelector doc leftColumn' [[Tag ''table'', NthOfType 3]])
                 (js ''NISA table not found'')) (\<lambda>nisaTable'.
     and_then (ensure (querySelector doc leftColumn' [[Tag ''table'', NthOfType 4]])
                 (js ''Valuation table not found'')) (\<lambda>valuationTable'.
     and_then (findTitledTable doc rightTables stockTitle) (\<lambda>stockTable'.
     and_then (findTitledTable doc rightTables fundTitle) (\<lambda>fundTable'.
     and_then (findTitledTable doc rightTables nisaFundTitle) (\<lambda>nisaFundTable'.
     and_then (findTitledTable doc rightTables nisaTsumitateTitle) (\<lambda>nisaTsumitateTable'.
     Inr \<lparr> summaryTable = summaryTable',
           allHeader = allHeader',
           accountInfo = accountInfo',
           mainPane = \<lparr>
             leftColumn = \<lparr> balanceTable = balanceTable', nisaTable = nisaTable',
                            valuationTable = valuationTable' \<rparr>,
             rightColumn = \<lparr> stockTable = stockTable', fundTable = fundTable',
                             nisaFundTable = nisaFundTable',
                             nisaTsumitateTable = nisaTsumitateTable' \<rparr> \<rparr> \<rparr>
     )))))))))))))))))"

subsection \<open>Extracting the orders\<close>

text \<open>
  The loop of \<^verbatim>\<open>fetchFundOrders\<close> over \<open>rows\<close>, two rows at a time from
  index \<open>i\<close>. \<^verbatim>\<open>rows[i+1]\<close>, \<^verbatim>\<open>headerCells[2]\<close>, \<^verbatim>\<open>headerCells[1]\<close> and
  \<^verbatim>\<open>dataCells[2]\<close> are \<^verbatim>\<open>undefined\<close> past the end of their lists, and the
  property read on them throws. A pair whose amount does not parse is skipped
  (\<^verbatim>\<open>continue\<close>).
\<close>

function fundOrdersLoop :: "node \<Rightarrow> path list \<Rightarrow> nat \<Rightarrow> Order list \<Rightarrow> error + Order list" where
  "fundOrdersLoop root rows i orders =
     (if i < length rows then
        (let headerRow = rows ! i;
             headerCells = querySelectorAll root headerRow [[Tag ''td'']]
         in case nth_opt rows (i + 1) of
              None \<Rightarrow> Inl TypeError
            | Some dataRow \<Rightarrow>
                (let dataCells = querySelectorAll root dataRow [[Tag ''td'']]
                 in case nth_opt headerCells 2 of
                      None \<Rightarrow> Inl TypeError
                    | Some nameCell \<Rightarrow>
                        (case nth_opt headerCells 1 of
                           None \<Rightarrow> Inl TypeError
                         | Some statusCell \<Rightarrow>
                             (case nth_opt dataCells 2 of
                                None \<Rightarrow> Inl TypeError
                              | Some amountCell \<Rightarrow>
                                  (case parsePaymentAmount (innerText root amountCell) of
                                     None \<Rightarrow> fundOrdersLoop root rows (i + 2) orders
                                   | Some amount' \<Rightarrow>
                                       fundOrdersLoop root rows (i + 2)
                                         (orders @ [\<lparr> name = innerText root nameCell,
                                                       status = innerText root statusCell,
                                                       amount = amount' \<rparr>]))))))
      else Inr orders)"
  by pat_completeness auto
termination
  by (relation "measure (\<lambda>(root, rows, i, orders). length rows - i)") auto

declare fundOrdersLoop.simps [simp del]

text \<open>
  \<^verbatim>\<open>fetchFundOrders\<close>, given the document that \<^verbatim>\<open>fetchPageDom\<close> has fetched,
  decoded and parsed (the network is not modelled).
\<close>

definition fetchFundOrders :: "node \<Rightarrow> error + Order list" where
  "fetchFundOrders root =
     (case querySelector root [] [[Tag ''table'', HasClass (js ''md-l-table-01'')]] of
        None \<Rightarrow> Inl (Error (js ''Orders table not found''))
      | Some table \<Rightarrow>
          fundOrdersLoop root (querySelectorAll root table [[Tag ''tbody''], [Tag ''tr'']]) 0 [])"

subsection \<open>Rendering the table of orders\<close>

text \<open>
  An assignment to a property of \<^verbatim>\<open>style\<close> is recorded as an attribute named
  after the property; style sheets are not modelled.
\<close>

definition headerRowMarkup :: jsstring where
  \<open>headerRowMarkup =
     js ''<td bgcolor="#414982" colspan=3 class="mtext-w"><b style="color:#99cc00">|</b> ''
     @ [0x6CE8, 0x6587, 0x4E2D, 0x6295, 0x8CC7, 0x4FE1, 0x8A17] @ js ''</td>''\<close>

definition orderRow :: "(jsnum \<Rightarrow> jsstring) \<Rightarrow> nat \<Rightarrow> Order \<Rightarrow> node" where
  \<open>orderRow format i order =
     Element ''tr''
       [(''style.backgroundColor'', if i mod 2 = 0 then js ''#ffffff'' else js ''#eeeeee'')]
       [Markup (js ''<td class="mtext">'' @ name order @ js ''</td><td class="mtext">''
                @ status order @ js ''</td><td class="mtext">''
                @ formatPaymentAmount format (amount order) @ js ''</td>'')]\<close>

definition summaryRow :: "(jsnum \<Rightarrow> jsstring) \<Rightarrow> PaymentAmount \<Rightarrow> node" where
  \<open>summaryRow format totalPaymentAmount =
     Element ''tr'' [(''style.backgroundColor'', js ''#e6e5ff'')]
       [Markup (js ''<td class="mtext"><b>'' @ [0x8A08] @ js ''</b></td><td></td><td class="mtext">''
                @ formatPaymentAmount format totalPaymentAmount @ js ''</td>'')]\<close>

text \<open>
  \<^verbatim>\<open>orders.forEach((order, i) => ...)\<close>: every order appends its row to the
  table and adds its amount to the running total.
\<close>

fun forEachOrder ::
  "(jsnum \<Rightarrow> jsstring) \<Rightarrow> nat \<Rightarrow> Order list \<Rightarrow> node \<times> PaymentAmount \<Rightarrow> node \<times> PaymentAmount" where
  "forEachOrder format i [] (orderTable, totalPaymentAmount) = (orderTable, totalPaymentAmount)"
| "forEachOrder format i (order # rest) (orderTable, totalPaymentAmount) =
     forEachOrder format (Suc i) rest
       (appendChild orderTable (orderRow format i order),
        \<lparr> moneyAmount = jsadd (moneyAmount totalPaymentAmount) (moneyAmount (amount order)),
          pointAmount = jsadd (pointAmount totalPaymentAmount) (pointAmount (amount order)) \<rparr>)"

text \<open>The table as it is just before it is put into the page (lines 151 to 174).\<close>

definition buildOrderTable :: "(jsnum \<Rightarrow> jsstring) \<Rightarrow> Order list \<Rightarrow> node" where
  "buildOrderTable format orders =
     (let orderTable = Element ''table''
            [(''style.width'', js ''340''), (''style.marginTop'', js ''0.5em'')] [];
          headerRow = Element ''tr'' [] [Markup headerRowMarkup];
          (orderTable', totalPaymentAmount) =
            forEachOrder format 0 orders
              (appendChild orderTable headerRow, \<lparr> moneyAmount = Num 0, pointAmount = Num 0 \<rparr>)
      in appendChild orderTable' (summaryRow format totalPaymentAmount))"

text \<open>
  The handler of \<^verbatim>\<open>then\<close>: it builds the table and appends it to the parent
  of the valuation table. \<^verbatim>\<open>parentNode!!\<close> asserts nothing at run time: with
  no parent, reading \<^verbatim>\<open>appendChild\<close> throws. The result is the page after the
  change.
\<close>

definition thenHandler ::
  "(jsnum \<Rightarrow> jsstring) \<Rightarrow> AccountSummaryPage \<Rightarrow> node \<Rightarrow> Order list \<Rightarrow> error + node" where
  "thenHandler format page document orders =
     (case parentNode document (valuationTable (leftColumn (mainPane page))) of
        None \<Rightarrow> Inl TypeError
      | Some parent \<Rightarrow>
          Inr (update_at document parent (\<lambda>n. appendChild n (buildOrderTable format orders))))"

text \<open>
  The body of the script: locate the regions of the page, extract the orders from
  the fetched page, then render.
\<close>

definition main :: "(jsnum \<Rightarrow> jsstring) \<Rightarrow> node \<Rightarrow> node \<Rightarrow> error + node" where
  "main format document fetched =
     and_then (accountSummaryPage document) (\<lambda>page.
     and_then (fetchFundOrders fetched) (\<lambda>orders.
     thenHandler format page document orders))"

section \<open>Example pages\<close>

text \<open>
  The pages are built from a few kinds of node, each kind a definition of its own.
\<close>

definition cell :: "node list \<Rightarrow> node" where
  "cell ns = Element ''td'' [] ns"

definition row_tr :: "node list \<Rightarrow> node" where
  "row_tr cells = Element ''tr'' [] cells"

definition row_tbody :: "node list \<Rightarrow> node" where
  "row_tbody rows = Element ''tbody'' [] rows"

text \<open>A table with one row of the given cells.\<close>

definition row_table :: "node list \<Rightarrow> node" where
  "row_table cells = Element ''table'' [] [row_tbody [row_tr cells]]"

text \<open>
  A table of two rows: the first row holds one cell with the given text, the
  second row two cells with other text.
\<close>

definition titled_table :: "jsstring \<Rightarrow> node" where
  "titled_table title =
     Element ''table'' []
       [row_tbody [row_tr [cell [Text title]],
                   row_tr [cell [Text (js ''total'')], cell [Text (js ''1,000'')]]]]"

definition plain_table :: node where
  "plain_table = Element ''table'' [] []"

definition tabs_map :: node where
  "tabs_map = Element ''map'' [(''name'', js ''tab_ac'')] []"

text \<open>
  A summary page with every region the script looks for. The right column holds
  the tables with the titles in \<open>titles\<close>, in that order; the left column holds
  four tables and then the nodes in \<open>extra\<close>.
\<close>

definition left_cell :: "node list \<Rightarrow> node" where
  "left_cell extra = cell ([plain_table, plain_table, plain_table, plain_table] @ extra)"

definition right_cell :: "jsstring list \<Rightarrow> node" where
  "right_cell titles = cell (map titled_table titles)"

definition main_table :: "jsstring list \<Rightarrow> node list \<Rightarrow> node" where
  "main_table titles extra = row_table [left_cell extra, cell [], right_cell titles]"

definition pane_cell :: "jsstring list \<Rightarrow> node list \<Rightarrow> node" where
  "pane_cell titles extra = cell [plain_table, plain_table, plain_table, main_table titles extra]"

definition pane_table :: "jsstring list \<Rightarrow> node list \<Rightarrow> node" where
  "pane_table titles extra = row_table [cell [], pane_cell titles extra]"

definition top_table :: "jsstring list \<Rightarrow> node list \<Rightarrow> node" where
  "top_table titles extra = row_table [cell [tabs_map, pane_table titles extra]]"

definition body_of :: "node list \<Rightarrow> node" where
  "body_of ns = Element ''body'' [] ns"

definition html_of :: "node list \<Rightarrow> node" where
  "html_of ns = Element ''html'' [] ns"

definition summary_page :: "jsstring list \<Rightarrow> node list \<Rightarrow> node" where
  "summary_page titles extra = Doc False [html_of [body_of [top_table titles extra]]]"

definition all_titles :: "jsstring list" where
  "all_titles = [stockTitle, fundTitle, nisaFundTitle, nisaTsumitateTitle]"

text \<open>
  A page of orders: one row of the table per element of \<open>rows\<close>, one cell per
  text of a row. \<open>q\<close> is the mode of the page.
\<close>

definition text_cell :: "jsstring \<Rightarrow> node" where
  "text_cell c = cell [Text c]"

definition orders_table :: "jsstring list list \<Rightarrow> node" where
  "orders_table rows =
     Element ''table'' [(''class'', js ''md-l-table-01'')]
       [row_tbody (map (\<lambda>cells. row_tr (map text_cell cells)) rows)]"

definition orders_page :: "bool \<Rightarrow> jsstring list list \<Rightarrow> node" where
  "orders_page q rows = Doc q [html_of [body_of [orders_table rows]]]"

text \<open>
  The summary page used in the examples: all four titled tables, and one more
  table after the valuation table in the left column. \<open>left_path\<close> is the path
  of its left column.
\<close>

definition page_A :: node where
  "page_A = summary_page all_titles [plain_table]"

definition left_path :: path where
  "left_path = [0, 0, 0, 0, 0, 0, 1, 0, 0, 1, 3, 0, 0, 0]"

definition right_path :: path where
  "right_path = [0, 0, 0, 0, 0, 0, 1, 0, 0, 1, 3, 0, 0, 2]"

definition located_A :: AccountSummaryPage where
  "located_A =
     \<lparr> summaryTable = [0, 0, 0],
       allHeader = [0, 0, 0, 0, 0, 0, 1, 0, 0, 1, 0],
       accountInfo = [0, 0, 0, 0, 0, 0, 1, 0, 0, 1, 1],
       mainPane = \<lparr>
         leftColumn = \<lparr> balanceTable = left_path @ [0], nisaTable = left_path @ [2],
                        valuationTable = left_path @ [3] \<rparr>,
         rightColumn = \<lparr> stockTable = right_path @ [0], fundTable = right_path @ [1],
                         nisaFundTable = right_path @ [2],
                         nisaTsumitateTable = right_path @ [3] \<rparr> \<rparr> \<rparr>"

text \<open>The formatter of a locale that groups with commas.\<close>

definition comma_format :: "jsnum \<Rightarrow> jsstring" where
  "comma_format = intl_format (js '','')"

text \<open>
  Rows of an orders table. A header row holds a number, the status and the name
  of the fund; a data row holds two other cells and the amount.
\<close>

definition header_cells :: "string \<Rightarrow> string \<Rightarrow> jsstring list" where
  "header_cells st nm = [js ''1'', js st, js nm]"

definition data_cells :: "jsstring \<Rightarrow> jsstring list" where
  "data_cells amt = [js ''buy'', js ''cash'', amt]"

text \<open>
  Three pairs of rows; the amount of the second pair is a dash. Then the same
  table cut after one row, and after three rows.
\<close>

definition three_pairs :: "jsstring list list" where
  "three_pairs =
     [header_cells ''open'' ''Fund A'', data_cells (js ''1,000'' @ [yen]),
      header_cells ''held'' ''Fund B'', data_cells (js ''-''),
      header_cells ''done'' ''Fund C'',
      data_cells (js ''30'' @ [yen] @ js '' (2'' @ pointo @ js '')'')]"

definition one_row :: "jsstring list list" where
  "one_row = [header_cells ''open'' ''Fund A'']"

definition three_rows :: "jsstring list list" where
  "three_rows =
     [header_cells ''open'' ''Fund A'', data_cells (js ''1,000'' @ [yen]),
      header_cells ''held'' ''Fund B'']"

text \<open>
  The summary page without the table of investment trusts in the specific
  account, and a page whose body is empty.
\<close>

definition page_B :: node where
  "page_B = summary_page [stockTitle, nisaFundTitle, nisaTsumitateTitle] []"

definition empty_page :: node where
  "empty_page = Doc False [html_of [body_of []]]"

text \<open>
  A pair of rows whose header row has one cell only and whose amount is a dash;
  and five rows: two pairs and a header row.
\<close>

definition short_header :: "jsstring list list" where
  "short_header = [[js ''Funds''], data_cells (js ''-'')]"

definition five_rows :: "jsstring list list" where
  "five_rows =
     [header_cells ''open'' ''Fund A'', data_cells (js ''1,000'' @ [yen]),
      header_cells ''held'' ''Fund B'', data_cells (js ''-''),
      header_cells ''done'' ''Fund C'']"

text \<open>
  A page with two tables whose class names differ in the case of their letters
  only: the first is written in capitals and has no rows, the second is the table
  of \<open>three_pairs\<close>.
\<close>

definition capital_table :: node where
  "capital_table = Element ''table'' [(''class'', js ''MD-L-TABLE-01'')] []"

definition two_tables_page :: "bool \<Rightarrow> node" where
  "two_tables_page q = Doc q [html_of [body_of [capital_table, orders_table three_pairs]]]"

section \<open>Auxiliary notions for the proofs\<close>

definition stops :: "cls list \<Rightarrow> jsstring \<Rightarrow> bool" where
  "stops cs rest = (case rest of [] \<Rightarrow> True | c # _ \<Rightarrow> \<not> list_ex (in_cls c) cs)"

definition dc :: "nat \<Rightarrow> bool" where
  "dc c = (48 \<le> c \<and> c \<le> 57 \<or> c = 44)"

definition is_digit :: "nat \<Rightarrow> bool" where
  "is_digit c = (48 \<le> c \<and> c \<le> 57)"

text \<open>The node at a path in the outcome of a run, if the run ended without an error.\<close>

definition result_node :: "error + node \<Rightarrow> path \<Rightarrow> node option" where
  "result_node r p = (case r of Inl _ \<Rightarrow> None | Inr d \<Rightarrow> node_at d p)"

text \<open>
  The rows of the orders table taken two by two, a header row with the data row
  after it; a last row without a partner is left out.
\<close>

fun pairs :: "'a list \<Rightarrow> ('a \<times> 'a) list" where
  "pairs (h # d # rest) = (h, d) # pairs rest"
| "pairs _ = []"

text \<open>The cells of a row.\<close>

definition cells :: "node \<Rightarrow> path \<Rightarrow> path list" where
  "cells root r = querySelectorAll root r [[Tag ''td'']]"

text \<open>A pair in which the header row and the data row have three cells or more.\<close>

definition complete_pair :: "node \<Rightarrow> path \<times> path \<Rightarrow> bool" where
  "complete_pair root pr =
     (3 \<le> length (cells root (fst pr)) \<and> 3 \<le> length (cells root (snd pr)))"

text \<open>
  The order that a pair of rows stands for: the name from cell 2 and the status
  from cell 1 of the header row, the amount from cell 2 of the data row; none if
  the amount does not parse.
\<close>

definition order_of_pair :: "node \<Rightarrow> path \<times> path \<Rightarrow> Order option" where
  "order_of_pair root pr =
     (case parsePaymentAmount (innerText root (cells root (snd pr) ! 2)) of
        None \<Rightarrow> None
      | Some a \<Rightarrow> Some \<lparr> name = innerText root (cells root (fst pr) ! 2),
                         status = innerText root (cells root (fst pr) ! 1),
                         amount = a \<rparr>)"

text \<open>
  The regions of the summary page, each as a lookup of its own: \<open>None\<close> when
  the region, or a region it is looked up in, is not there.
\<close>

definition find_summaryTable :: "node \<Rightarrow> path option" where
  "find_summaryTable doc =
     Option.bind (body doc) (\<lambda>b. nth_opt (getElementsByTagName doc b ''table'') 0)"

definition find_map :: "node \<Rightarrow> path option" where
  "find_map doc =
     Option.bind (find_summaryTable doc)
       (\<lambda>t. querySelector doc t [[Tag ''map'', AttrEq ''name'' (js ''tab_ac'')]])"

definition find_summaryPaneTable :: "node \<Rightarrow> path option" where
  "find_summaryPaneTable doc = Option.bind (find_map doc) (nextElementSibling doc)"

definition find_summaryPane :: "node \<Rightarrow> path option" where
  "find_summaryPane doc =
     Option.bind (find_summaryPaneTable doc)
       (\<lambda>t. querySelector doc t [[Tag ''tbody''], [Tag ''tr''], [Tag ''td'', NthOfType 2]])"

definition pane_tables :: "node \<Rightarrow> path list" where
  "pane_tables doc =
     (case find_summaryPane doc of
        None \<Rightarrow> []
      | Some p \<Rightarrow> querySelectorAll doc p [[Tag ''table'']])"

definition find_mainPane :: "node \<Rightarrow> path option" where
  "find_mainPane doc = nth_opt (pane_tables doc) 3"

definition find_leftColumn :: "node \<Rightarrow> path option" where
  "find_leftColumn doc =
     Option.bind (find_mainPane doc)
       (\<lambda>m. querySelector doc m [[Tag ''tbody''], [Tag ''tr''], [Tag ''td'', NthOfType 1]])"

definition find_rightColumn :: "node \<Rightarrow> path option" where
  "find_rightColumn doc =
     Option.bind (find_mainPane doc)
       (\<lambda>m. querySelector doc m [[Tag ''tbody''], [Tag ''tr''], [Tag ''td'', NthOfType 3]])"

definition find_left_table :: "node \<Rightarrow> nat \<Rightarrow> path option" where
  "find_left_table doc k =
     Option.bind (find_leftColumn doc) (\<lambda>l. querySelector doc l [[Tag ''table'', NthOfType k]])"

definition right_tables :: "node \<Rightarrow> path list" where
  "right_tables doc =
     (case find_rightColumn doc of
        None \<Rightarrow> []
      | Some r \<Rightarrow> querySelectorAll doc r [[Tag ''table'']])"

definition find_titled :: "node \<Rightarrow> jsstring \<Rightarrow> path option" where
  "find_titled doc title = find (\<lambda>t. tableTitle doc t = Some title) (right_tables doc)"

definition titled_message :: "jsstring \<Rightarrow> jsstring" where
  "titled_message title = js ''Table titled '' @ title @ js '' not found''"

text \<open>
  The regions in the order in which the script looks them up, each with the
  message that names it: first those found by position, then the four tables
  found by their title.
\<close>

definition positional_regions :: "node \<Rightarrow> (jsstring \<times> path option) list" where
  "positional_regions doc =
     [(js ''Top-level table not found'', find_summaryTable doc),
      (js ''Tabs not found'', find_map doc),
      (js ''Summary pane table not found'', find_summaryPaneTable doc),
      (js ''Summary pane not found'', find_summaryPane doc),
      (js ''allHeader not found'', nth_opt (pane_tables doc) 0),
      (js ''accountInfo not found'', nth_opt (pane_tables doc) 1),
      (js ''mainPane not found'', find_mainPane doc),
      (js ''Left column not found'', find_leftColumn doc),
      (js ''Right column not found'', find_rightColumn doc),
      (js ''Balance table not found'', find_left_table doc 1),
      (js ''NISA table not found'', find_left_table doc 3),
      (js ''Valuation table not found'', find_left_table doc 4)]"

definition the_titles :: "jsstring list" where
  "the_titles = [stockTitle, fundTitle, nisaFundTitle, nisaTsumitateTitle]"

definition titled_regions :: "node \<Rightarrow> (jsstring \<times> path option) list" where
  "titled_regions doc = map (\<lambda>title. (titled_message title, find_titled doc title)) the_titles"

definition regions :: "node \<Rightarrow> (jsstring \<times> path option) list" where
  "regions doc = positional_regions doc @ titled_regions doc"

text \<open>The page made of what the lookups find.\<close>

definition page_of_regions :: "node \<Rightarrow> AccountSummaryPage" where
  "page_of_regions doc =
     \<lparr> summaryTable = the (find_summaryTable doc),
       allHeader = the (nth_opt (pane_tables doc) 0),
       accountInfo = the (nth_opt (pane_tables doc) 1),
       mainPane = \<lparr>
         leftColumn = \<lparr> balanceTable = the (find_left_table doc 1),
                        nisaTable = the (find_left_table doc 3),
                        valuationTable = the (find_left_table doc 4) \<rparr>,
         rightColumn = \<lparr> stockTable = the (find_titled doc stockTitle),
                         fundTable = the (find_titled doc fundTitle),
                         nisaFundTable = the (find_titled doc nisaFundTitle),
                         nisaTsumitateTable = the (find_titled doc nisaTsumitateTitle) \<rparr> \<rparr> \<rparr>"

text \<open>The ten references that a located page holds.\<close>

definition page_fields :: "AccountSummaryPage \<Rightarrow> path list" where
  "page_fields page =
     [summaryTable page, allHeader page, accountInfo page,
      balanceTable (leftColumn (mainPane page)), nisaTable (leftColumn (mainPane page)),
      valuationTable (leftColumn (mainPane page)),
      stockTable (rightColumn (mainPane page)), fundTable (rightColumn (mainPane page)),
      nisaFundTable (rightColumn (mainPane page)),
      nisaTsumitateTable (rightColumn (mainPane page))]"

text \<open>The titled tables of a located page.\<close>

definition titled_fields :: "AccountSummaryPage \<Rightarrow> path list" where
  "titled_fields page =
     [stockTable (rightColumn (mainPane page)), fundTable (rightColumn (mainPane page)),
      nisaFundTable (rightColumn (mainPane page)),
      nisaTsumitateTable (rightColumn (mainPane page))]"


text \<open>An order with a money amount and a point amount that are natural numbers.\<close>

definition order_of :: "jsstring \<times> jsstring \<times> nat \<times> nat \<Rightarrow> Order" where
  "order_of x =
     (case x of (nm, st, m, p) \<Rightarrow>
        \<lparr> name = nm, status = st,
          amount = \<lparr> moneyAmount = Num (int m), pointAmount = Num (int p) \<rparr> \<rparr>)"

section \<open>The rendered table\<close>

lemma children_appendChild:
  "children n \<noteq> [] \<or> is_element n \<Longrightarrow> children (appendChild n c) = children n @ [c]"
  by (cases n) (auto simp: is_element_def)

lemma bitlen_two_53: "bitlen 9007199254740992 = 54"
  by (simp add: bitlen.simps)

lemma round_nat_safe: "n \<le> 2 ^ 53 \<Longrightarrow> round_nat n = n"
proof (cases "n < 2 ^ 53")
  case True
  then show ?thesis by (simp add: round_nat_def)
next
  case False
  assume "n \<le> 2 ^ 53"
  with False have "n = 9007199254740992" by simp
  then show ?thesis by (simp add: round_nat_def bitlen_two_53 Let_def)
qed

lemma jsadd_safe:
  "a + b \<le> 2 ^ 53 \<Longrightarrow> jsadd (Num (int a)) (Num (int b)) = Num (int (a + b))"
proof -
  assume s: "a + b \<le> 2 ^ 53"
  have "nat \<bar>int a + int b\<bar> = a + b" by simp
  moreover have "(2::nat) ^ 53 < 2 ^ 1024" by simp
  ultimately show ?thesis
    using round_nat_safe [OF s] s by (simp add: double_of_int_def Let_def del: of_nat_add)
qed

lemma forEachOrder_fold:
  "is_element t \<Longrightarrow>
   \<exists>t'. forEachOrder format i orders (t, tot) =
      (t', \<lparr> moneyAmount = foldl jsadd (moneyAmount tot) (map (\<lambda>order. moneyAmount (amount order)) orders),
             pointAmount = foldl jsadd (pointAmount tot) (map (\<lambda>order. pointAmount (amount order)) orders) \<rparr>)
      \<and> is_element t'"
proof (induction orders arbitrary: i t tot)
  case Nil
  then show ?case by simp
next
  case (Cons order rest)
  have "is_element (appendChild t (orderRow format i order))"
    using Cons.prems by (cases t) (simp_all add: is_element_def)
  from Cons.IH [OF this, of "Suc i"
      "\<lparr> moneyAmount = jsadd (moneyAmount tot) (moneyAmount (amount order)),
         pointAmount = jsadd (pointAmount tot) (pointAmount (amount order)) \<rparr>"]
  show ?case by simp
qed

lemma foldl_jsadd_safe:
  "a + sum_list xs \<le> 2 ^ 53 \<Longrightarrow>
   foldl jsadd (Num (int a)) (map (\<lambda>x. Num (int x)) xs) = Num (int (a + sum_list xs))"
proof (induction xs arbitrary: a)
  case Nil
  then show ?case by simp
next
  case (Cons x xs)
  from Cons.prems have ax: "a + x \<le> 2 ^ 53" and "(a + x) + sum_list xs \<le> 2 ^ 53"
    by simp_all
  from Cons.IH [OF this(2)] jsadd_safe [OF ax] show ?case
    by (simp add: add.assoc del: jsadd.simps of_nat_add)
qed

lemma last_buildOrderTable:
  "last (children (buildOrderTable format orders)) =
     summaryRow format
       \<lparr> moneyAmount = foldl jsadd (Num 0) (map (\<lambda>order. moneyAmount (amount order)) orders),
         pointAmount = foldl jsadd (Num 0) (map (\<lambda>order. pointAmount (amount order)) orders) \<rparr>"
proof -
  let ?t0 = "appendChild (Element ''table''
            [(''style.width'', js ''340''), (''style.marginTop'', js ''0.5em'')] [])
            (Element ''tr'' [] [Markup headerRowMarkup])"
  have "is_element ?t0" by (simp add: is_element_def)
  from forEachOrder_fold [OF this, of format 0 orders "\<lparr> moneyAmount = Num 0, pointAmount = Num 0 \<rparr>"]
  obtain t' where
    fe: "forEachOrder format 0 orders (?t0, \<lparr> moneyAmount = Num 0, pointAmount = Num 0 \<rparr>) =
      (t', \<lparr> moneyAmount = foldl jsadd (Num 0) (map (\<lambda>order. moneyAmount (amount order)) orders),
             pointAmount = foldl jsadd (Num 0) (map (\<lambda>order. pointAmount (amount order)) orders) \<rparr>)"
    and el: "is_element t'"
    by auto
  from el show ?thesis
    unfolding buildOrderTable_def Let_def fe
    by (simp add: children_appendChild)
qed

lemmas format_defs = comma_format_def decimal.simps group3.simps js_def

section \<open>Evaluating the queries on the example pages\<close>

text \<open>
  The queries see a node through its children, its tag and its attributes. These
  equations give them for every kind of node of the examples, so that an example
  is evaluated without unfolding the whole page.
\<close>

lemma textContent_children:
  "tag_of n = Some t \<Longrightarrow> textContent n = concat (map textContent (children n))"
  by (cases n) simp_all

lemma example_children:
  "children (cell ns) = ns"
  "children (row_tr ns) = ns"
  "children (row_tbody ns) = ns"
  "children (row_table ns) = [row_tbody [row_tr ns]]"
  "children (titled_table title)
     = [row_tbody [row_tr [cell [Text title]],
                   row_tr [cell [Text (js ''total'')], cell [Text (js ''1,000'')]]]]"
  "children plain_table = []"
  "children tabs_map = []"
  "children (left_cell extra) = [plain_table, plain_table, plain_table, plain_table] @ extra"
  "children (right_cell titles) = map titled_table titles"
  "children (main_table titles extra)
     = [row_tbody [row_tr [left_cell extra, cell [], right_cell titles]]]"
  "children (pane_cell titles extra)
     = [plain_table, plain_table, plain_table, main_table titles extra]"
  "children (pane_table titles extra) = [row_tbody [row_tr [cell [], pane_cell titles extra]]]"
  "children (top_table titles extra)
     = [row_tbody [row_tr [cell [tabs_map, pane_table titles extra]]]]"
  "children (body_of ns) = ns"
  "children (html_of ns) = ns"
  "children (summary_page titles extra) = [html_of [body_of [top_table titles extra]]]"
  "children (text_cell c) = [Text c]"
  "children (orders_table rows) = [row_tbody (map (\<lambda>cells. row_tr (map text_cell cells)) rows)]"
  "children (orders_page q rows) = [html_of [body_of [orders_table rows]]]"
  "children capital_table = []"
  "children (two_tables_page q) = [html_of [body_of [capital_table, orders_table three_pairs]]]"
  "children empty_page = [html_of [body_of []]]"
  by (simp_all add: cell_def row_tr_def row_tbody_def row_table_def titled_table_def
      plain_table_def tabs_map_def left_cell_def right_cell_def main_table_def pane_cell_def
      pane_table_def top_table_def body_of_def html_of_def summary_page_def text_cell_def
      orders_table_def orders_page_def empty_page_def
      capital_table_def two_tables_page_def)

lemma example_tags:
  "tag_of (cell ns) = Some ''td''"
  "tag_of (row_tr ns) = Some ''tr''"
  "tag_of (row_tbody ns) = Some ''tbody''"
  "tag_of (row_table ns) = Some ''table''"
  "tag_of (titled_table title) = Some ''table''"
  "tag_of plain_table = Some ''table''"
  "tag_of tabs_map = Some ''map''"
  "tag_of (left_cell extra) = Some ''td''"
  "tag_of (right_cell titles) = Some ''td''"
  "tag_of (main_table titles extra) = Some ''table''"
  "tag_of (pane_cell titles extra) = Some ''td''"
  "tag_of (pane_table titles extra) = Some ''table''"
  "tag_of (top_table titles extra) = Some ''table''"
  "tag_of (body_of ns) = Some ''body''"
  "tag_of (html_of ns) = Some ''html''"
  "tag_of (summary_page titles extra) = None"
  "tag_of (text_cell c) = Some ''td''"
  "tag_of (orders_table rows) = Some ''table''"
  "tag_of (orders_page q rows) = None"
  "tag_of capital_table = Some ''table''"
  "tag_of (two_tables_page q) = None"
  "tag_of empty_page = None"
  by (simp_all add: cell_def row_tr_def row_tbody_def row_table_def titled_table_def
      plain_table_def tabs_map_def left_cell_def right_cell_def main_table_def pane_cell_def
      pane_table_def top_table_def body_of_def html_of_def summary_page_def text_cell_def
      orders_table_def orders_page_def empty_page_def
      capital_table_def two_tables_page_def)

lemma example_attrs:
  "attrs_of (cell ns) = []"
  "attrs_of (row_tr ns) = []"
  "attrs_of (row_tbody ns) = []"
  "attrs_of (row_table ns) = []"
  "attrs_of (titled_table title) = []"
  "attrs_of plain_table = []"
  "attrs_of tabs_map = [(''name'', js ''tab_ac'')]"
  "attrs_of (left_cell extra) = []"
  "attrs_of (right_cell titles) = []"
  "attrs_of (main_table titles extra) = []"
  "attrs_of (pane_cell titles extra) = []"
  "attrs_of (pane_table titles extra) = []"
  "attrs_of (top_table titles extra) = []"
  "attrs_of (body_of ns) = []"
  "attrs_of (html_of ns) = []"
  "attrs_of (summary_page titles extra) = []"
  "attrs_of (text_cell c) = []"
  "attrs_of (orders_table rows) = [(''class'', js ''md-l-table-01'')]"
  "attrs_of (orders_page q rows) = []"
  "attrs_of capital_table = [(''class'', js ''MD-L-TABLE-01'')]"
  "attrs_of (two_tables_page q) = []"
  "attrs_of empty_page = []"
  by (simp_all add: cell_def row_tr_def row_tbody_def row_table_def titled_table_def
      plain_table_def tabs_map_def left_cell_def right_cell_def main_table_def pane_cell_def
      pane_table_def top_table_def body_of_def html_of_def summary_page_def text_cell_def
      orders_table_def orders_page_def empty_page_def
      capital_table_def two_tables_page_def)

lemma example_modes:
  "quirks_mode (summary_page titles extra) = False"
  "quirks_mode (orders_page q rows) = q"
  "quirks_mode empty_page = False"
  "quirks_mode (two_tables_page q) = q"
  by (simp_all add: summary_page_def orders_page_def empty_page_def two_tables_page_def)

lemma and_then_weak_cong: "r = r' \<Longrightarrow> and_then r f = and_then r' f"
  by simp

lemma and_then_simps: "and_then (Inr x) f = f x" "and_then (Inl e) f = Inl e"
  by (simp_all add: and_then_def)

lemmas weak_congs = and_then_weak_cong option.case_cong_weak list.case_cong_weak
  sum.case_cong_weak let_weak_cong

lemmas example_simps = example_children example_tags example_attrs example_modes
  textContent_children

lemmas query_defs = body_def ensure_def nth_opt_def getElementsByTagName_def
  querySelectorAll_def querySelector_def matches_def matches_compound_def is_element_def
  index_of_type_def nextElementSibling_def findTitledTable_def tableTitle_def textContent_at_def
  innerText_def parentNode_def and_then_simps Let_def

lemma titles_distinct:
  "stockTitle \<noteq> fundTitle" "stockTitle \<noteq> nisaFundTitle" "stockTitle \<noteq> nisaTsumitateTitle"
  "fundTitle \<noteq> stockTitle" "fundTitle \<noteq> nisaFundTitle" "fundTitle \<noteq> nisaTsumitateTitle"
  "nisaFundTitle \<noteq> stockTitle" "nisaFundTitle \<noteq> fundTitle"
  "nisaFundTitle \<noteq> nisaTsumitateTitle"
  "nisaTsumitateTitle \<noteq> stockTitle" "nisaTsumitateTitle \<noteq> fundTitle"
  "nisaTsumitateTitle \<noteq> nisaFundTitle"
  by (simp_all add: stockTitle_def fundTitle_def nisaFundTitle_def nisaTsumitateTitle_def)

section \<open>Paths and updates\<close>

lemma located_page_A: "accountSummaryPage page_A = Inr located_A"
  by (simp add: accountSummaryPage_def page_A_def located_A_def left_path_def right_path_def
      example_simps query_defs all_titles_def titles_distinct cong: weak_congs)

lemma no_orders: "fetchFundOrders (orders_page q []) = Inr []"
  by (simp add: fetchFundOrders_def fundOrdersLoop.simps example_simps query_defs js_def
      is_ascii_space_def ascii_lower_def cong: weak_congs)

lemma node_at_append:
  "node_at n (p @ q) = (case node_at n p of None \<Rightarrow> None | Some m \<Rightarrow> node_at m q)"
  by (induction p arbitrary: n) auto

lemma children_set_children:
  "children n \<noteq> [] \<Longrightarrow> children (set_children n cs) = cs"
  by (cases n) auto

lemma node_at_update_at:
  "node_at n p = Some m \<Longrightarrow> node_at (update_at n p f) p = Some (f m)"
proof (induction p arbitrary: n)
  case Nil
  then show ?case by simp
next
  case (Cons i p)
  then have i: "i < length (children n)" and m: "node_at (children n ! i) p = Some m"
    by (auto split: if_splits)
  from i have "children n \<noteq> []" by auto
  with i Cons.IH [OF m] show ?case
    by (simp add: children_set_children)
qed

lemma thenHandler_appends:
  assumes "valuationTable (leftColumn (mainPane page)) = parent @ [i]"
    and "node_at document parent = Some p"
    and "i < length (children p)"
  shows "\<exists>document'. thenHandler format page document orders = Inr document'
           \<and> node_at document' parent = Some (appendChild p (buildOrderTable format orders))
           \<and> children (appendChild p (buildOrderTable format orders))
               = children p @ [buildOrderTable format orders]"
proof -
  from assms(3) have ne: "children p \<noteq> []" by auto
  have "node_at document (parent @ [i]) = Some (children p ! i)"
    using assms(2,3) by (simp add: node_at_append)
  then have "parentNode document (parent @ [i]) = Some parent"
    by (simp add: parentNode_def)
  with assms(1) have "thenHandler format page document orders =
      Inr (update_at document parent (\<lambda>n. appendChild n (buildOrderTable format orders)))"
    by (simp add: thenHandler_def)
  moreover from node_at_update_at [OF assms(2)]
  have "node_at (update_at document parent (\<lambda>n. appendChild n (buildOrderTable format orders))) parent
      = Some (appendChild p (buildOrderTable format orders))" .
  ultimately show ?thesis using ne by (simp add: children_appendChild)
qed

lemma left_cell_A: "node_at page_A left_path = Some (left_cell [plain_table])"
  by (simp add: page_A_def left_path_def example_simps)

section \<open>The loop over the rows\<close>

lemma fundOrdersLoop_done: "\<not> i < length rows \<Longrightarrow> fundOrdersLoop root rows i orders = Inr orders"
  by (simp add: fundOrdersLoop.simps)

lemma fundOrdersLoop_step:
  assumes "Suc i < length rows" "complete_pair root (rows ! i, rows ! Suc i)"
  shows "fundOrdersLoop root rows i orders =
     fundOrdersLoop root rows (i + 2)
       (orders @ (case order_of_pair root (rows ! i, rows ! Suc i) of None \<Rightarrow> [] | Some x \<Rightarrow> [x]))"
proof -
  from assms(2) have h: "3 \<le> length (querySelectorAll root (rows ! i) [[Tag ''td'']])"
    and d: "3 \<le> length (querySelectorAll root (rows ! Suc i) [[Tag ''td'']])"
    by (simp_all add: complete_pair_def cells_def)
  from assms(1) have i: "i < length rows" by simp
  show ?thesis
    using assms(1) i h d
    by (subst fundOrdersLoop.simps)
       (simp add: nth_opt_def Let_def order_of_pair_def cells_def split: option.splits)
qed

lemma pairs_drop:
  "Suc i < length rows \<Longrightarrow> pairs (drop i rows) = (rows ! i, rows ! Suc i) # pairs (drop (i + 2) rows)"
proof -
  assume a: "Suc i < length rows"
  then have "drop i rows = rows ! i # rows ! Suc i # drop (Suc (Suc i)) rows"
    by (simp add: Cons_nth_drop_Suc Suc_lessD)
  then show ?thesis by simp
qed

lemma fundOrdersLoop_pairs:
  "even (length rows - i) \<Longrightarrow> list_all (complete_pair root) (pairs (drop i rows)) \<Longrightarrow>
   fundOrdersLoop root rows i orders
     = Inr (orders @ List.map_filter (order_of_pair root) (pairs (drop i rows)))"
proof (induction "length rows - i" arbitrary: i orders rule: less_induct)
  case less
  show ?case
  proof (cases "i < length rows")
    case False
    then show ?thesis by (simp add: fundOrdersLoop_done List.map_filter_simps)
  next
    case True
    have "length rows - i \<noteq> 1"
    proof
      assume "length rows - i = 1"
      with less.prems(1) have "even (1::nat)" by (simp only:)
      then show False by simp
    qed
    with True have s: "Suc i < length rows" by arith
    note pd = pairs_drop [OF s]
    from less.prems(2) pd have c: "complete_pair root (rows ! i, rows ! Suc i)"
      and rest: "list_all (complete_pair root) (pairs (drop (i + 2) rows))"
      by simp_all
    from s less.prems(1) have ev: "even (length rows - (i + 2))" by simp
    from s have "length rows - (i + 2) < length rows - i" by simp
    from less.hyps [OF this ev rest]
    have "fundOrdersLoop root rows (i + 2)
        (orders @ (case order_of_pair root (rows ! i, rows ! Suc i) of None \<Rightarrow> [] | Some x \<Rightarrow> [x]))
      = Inr ((orders @ (case order_of_pair root (rows ! i, rows ! Suc i) of None \<Rightarrow> [] | Some x \<Rightarrow> [x]))
          @ List.map_filter (order_of_pair root) (pairs (drop (i + 2) rows)))" .
    with fundOrdersLoop_step [OF s c, of orders] pd show ?thesis
      by (simp add: List.map_filter_simps split: option.splits)
  qed
qed

lemmas parse_defs = parsePaymentAmount_def amount_re_def digit_or_comma_def js_def yen_def
  pointo_def is_js_space_def remove_commas_def parseInt_def strip_prefix_def
  parse_digits_def digit_val_def digits_value_def

lemma three_pairs_table:
  "querySelector (orders_page q three_pairs) [] [[Tag ''table'', HasClass (js ''md-l-table-01'')]]
     = Some [0, 0, 0]"
  by (simp add: example_simps query_defs js_def is_ascii_space_def ascii_lower_def
      cong: weak_congs)

lemma three_pairs_rows:
  "querySelectorAll (orders_page q three_pairs) [0, 0, 0] [[Tag ''tbody''], [Tag ''tr'']]
     = [[0, 0, 0, 0, 0], [0, 0, 0, 0, 1], [0, 0, 0, 0, 2], [0, 0, 0, 0, 3], [0, 0, 0, 0, 4],
        [0, 0, 0, 0, 5]]"
  by (simp add: example_simps query_defs three_pairs_def header_cells_def data_cells_def
      cong: weak_congs)

text \<open>
  Two tables whose class names differ in case only: in quirks mode the selector
  finds the first, otherwise the second.
\<close>

lemma class_case_example:
  "querySelector (two_tables_page True) [] [[Tag ''table'', HasClass (js ''md-l-table-01'')]]
     = Some [0, 0, 0]"
  "querySelector (two_tables_page False) [] [[Tag ''table'', HasClass (js ''md-l-table-01'')]]
     = Some [0, 0, 1]"
  "fetchFundOrders (two_tables_page True) = Inr []"
  by (simp_all add: fetchFundOrders_def fundOrdersLoop.simps example_simps query_defs js_def
      is_ascii_space_def ascii_lower_def cong: weak_congs)

section \<open>The pattern on a formatted amount\<close>

lemma ms_Seq_first:
  "ms a st = x # xs \<Longrightarrow> ms b x = y # ys \<Longrightarrow> \<exists>zs. ms (Seq a b) st = y # zs"
  by (cases st) simp

lemma ms_Lit_first: "ms (Lit c) (c # s, m) = [(s, m)]"
  by simp

lemma ms_Group_first:
  "ms r (s, m) = (s', m') # xs \<Longrightarrow>
   \<exists>zs. ms (Group k r) (s, m) = (s', m'(k \<mapsto> take (length s - length s') s)) # zs"
  by simp

lemma ms_Opt_first:
  "ms r (s, m) = (s', m') # xs \<Longrightarrow> length s' < length s \<Longrightarrow>
   \<exists>zs. ms (Opt r) (s, m) = (s', m') # zs"
  by simp

lemma ms_Star_Class_first:
  "list_all (\<lambda>c. list_ex (in_cls c) cs) ds \<Longrightarrow> stops cs rest \<Longrightarrow>
   \<exists>zs. ms (Star (Class cs)) (ds @ rest, m) = (rest, m) # zs"
proof (induction ds)
  case Nil
  then show ?case by (cases rest) (simp_all add: stops_def)
next
  case (Cons d ds)
  then obtain zs where "ms (Star (Class cs)) (ds @ rest, m) = (rest, m) # zs"
    by auto
  with Cons.prems show ?case by simp
qed

lemma ms_Plus_Class_first:
  assumes "ds \<noteq> []" "list_all (\<lambda>c. list_ex (in_cls c) cs) ds" "stops cs rest"
  shows "\<exists>zs. ms (Plus (Class cs)) (ds @ rest, m) = (rest, m) # zs"
proof -
  from assms(1) obtain d ds' where ds: "ds = d # ds'" by (cases ds) auto
  with assms(2) have "list_all (\<lambda>c. list_ex (in_cls c) cs) ds'" by simp
  from ms_Star_Class_first [OF this assms(3)]
  obtain zs where "ms (Star (Class cs)) (ds' @ rest, m) = (rest, m) # zs" by blast
  with ds assms(2) show ?thesis by simp
qed


lemma in_digit_or_comma: "list_ex (in_cls c) [Range 48 57, One 44] = dc c"
  by (auto simp: dc_def)

lemma amount_re_first:
  assumes A: "A \<noteq> []" "list_all dc A" and B: "B \<noteq> []" "list_all dc B"
  shows "\<exists>m zs. ms amount_re (A @ [yen] @ js '' ('' @ B @ pointo @ js '')'', Map.empty) = ([], m) # zs
           \<and> m 1 = Some A \<and> m 3 = Some B"
proof -
  let ?cs = "[Range 48 57, One 44]"
  let ?tail = "[0x30DD, 0x30A4, 0x30F3, 0x30C8, 41::nat]"
  let ?r3 = "B @ ?tail"
  let ?r2 = "32 # 40 # ?r3"
  let ?r1 = "yen # ?r2"
  let ?m1 = "[1 \<mapsto> A]"
  have whole: "A @ [yen] @ js '' ('' @ B @ pointo @ js '')'' = A @ ?r1"
    by (simp add: js_def pointo_def)
  have all: "\<And>xs. list_all dc xs \<Longrightarrow> list_all (\<lambda>c. list_ex (in_cls c) ?cs) xs"
    by (simp add: list_all_iff dc_def)
  have "stops ?cs ?r1" by (simp add: stops_def yen_def)
  from ms_Plus_Class_first [OF A(1) all [OF A(2)] this]
  obtain z1 where "ms (Plus (Class ?cs)) (A @ ?r1, Map.empty) = (?r1, Map.empty) # z1"
    by blast
  from ms_Group_first [OF this, of 1]
  obtain z2 where g1: "ms (Group 1 (Plus (Class ?cs))) (A @ ?r1, Map.empty) = (?r1, ?m1) # z2"
    by auto
  have "list_all (\<lambda>c. list_ex (in_cls c) [WhiteSpace]) [32]" by (simp add: is_js_space_def)
  moreover have "stops [WhiteSpace] (40 # ?r3)" by (simp add: stops_def is_js_space_def)
  ultimately obtain z3 where
    sp: "ms (Star (Class [WhiteSpace])) (?r2, ?m1) = (40 # ?r3, ?m1) # z3"
    using ms_Star_Class_first [of "[WhiteSpace]" "[32]" "40 # ?r3" ?m1] by auto
  have "stops ?cs ?tail" by (simp add: stops_def)
  from ms_Plus_Class_first [OF B(1) all [OF B(2)] this]
  obtain z4 where "ms (Plus (Class ?cs)) (B @ ?tail, ?m1) = (?tail, ?m1) # z4"
    by blast
  from ms_Group_first [OF this, of 3]
  obtain z5 where g3: "ms (Group 3 (Plus (Class ?cs))) (?r3, ?m1) = (?tail, ?m1(3 \<mapsto> B)) # z5"
    by auto
  let ?lits = "Seq (Lit 0x30DD) (Seq (Lit 0x30A4) (Seq (Lit 0x30F3) (Seq (Lit 0x30C8) (Lit 41))))"
  have lits: "ms ?lits (?tail, ?m1(3 \<mapsto> B)) = [([], ?m1(3 \<mapsto> B))]"
    by simp
  from ms_Seq_first [OF g3 lits]
  obtain z6 where "ms (Seq (Group 3 (Plus (Class ?cs))) ?lits) (?r3, ?m1) = ([], ?m1(3 \<mapsto> B)) # z6"
    by blast
  from ms_Seq_first [OF ms_Lit_first this]
  obtain z7 where
    "ms (Seq (Lit 40) (Seq (Group 3 (Plus (Class ?cs))) ?lits)) (40 # ?r3, ?m1)
       = ([], ?m1(3 \<mapsto> B)) # z7"
    by blast
  from ms_Seq_first [OF sp this]
  obtain z8 where
    "ms (Seq (Star (Class [WhiteSpace])) (Seq (Lit 40) (Seq (Group 3 (Plus (Class ?cs))) ?lits)))
        (?r2, ?m1) = ([], ?m1(3 \<mapsto> B)) # z8"
    by blast
  from ms_Group_first [OF this, of 2]
  obtain m2 z9 where
    g2: "ms (Group 2 (Seq (Star (Class [WhiteSpace]))
            (Seq (Lit 40) (Seq (Group 3 (Plus (Class ?cs))) ?lits)))) (?r2, ?m1) = ([], m2) # z9"
    and m2: "m2 1 = Some A" "m2 3 = Some B"
    by (auto simp del: ms.simps)
  from ms_Opt_first [OF g2]
  obtain z10 where
    "ms (Opt (Group 2 (Seq (Star (Class [WhiteSpace]))
            (Seq (Lit 40) (Seq (Group 3 (Plus (Class ?cs))) ?lits))))) (?r2, ?m1) = ([], m2) # z10"
    by (auto simp del: ms.simps)
  from ms_Seq_first [OF ms_Lit_first this]
  obtain z11 where
    "ms (Seq (Lit yen) (Opt (Group 2 (Seq (Star (Class [WhiteSpace]))
            (Seq (Lit 40) (Seq (Group 3 (Plus (Class ?cs))) ?lits)))))) (?r1, ?m1) = ([], m2) # z11"
    by blast
  from ms_Seq_first [OF g1 this]
  have "\<exists>zs. ms amount_re (A @ ?r1, Map.empty) = ([], m2) # zs"
    by (simp only: amount_re_def digit_or_comma_def)
  with m2 whole show ?thesis by auto
qed

lemma exec_amount_re:
  assumes "A \<noteq> []" "list_all dc A" "B \<noteq> []" "list_all dc B"
  shows "\<exists>m. exec amount_re (A @ [yen] @ js '' ('' @ B @ pointo @ js '')'') = Some m
           \<and> m 1 = Some A \<and> m 3 = Some B"
proof -
  from amount_re_first [OF assms] obtain m zs where
    h: "ms amount_re (A @ [yen] @ js '' ('' @ B @ pointo @ js '')'', Map.empty) = ([], m) # zs"
       "m 1 = Some A" "m 3 = Some B"
    by blast
  from assms(1) obtain a A' where "A = a # A'" by (cases A) auto
  with h show ?thesis by simp
qed


lemma decimal_digits: "decimal n \<noteq> [] \<and> list_all is_digit (decimal n)"
proof (induction n rule: decimal.induct)
  case (1 n)
  show ?case
  proof (cases "n < 10")
    case True
    then show ?thesis by (simp add: decimal.simps [of n] is_digit_def)
  next
    case False
    with 1 have "list_all is_digit (decimal (n div 10))" by simp
    moreover have "n mod 10 < 10" by simp
    then have "is_digit (48 + n mod 10)" unfolding is_digit_def by linarith
    ultimately show ?thesis using False
      by (simp add: decimal.simps [of n])
  qed
qed

lemma digit_val_10: "is_digit c \<Longrightarrow> digit_val 10 c = Some (c - 48)"
  by (auto simp: digit_val_def is_digit_def Let_def)

lemma digits_value_snoc:
  "digits_value r (xs @ [c]) = digits_value r xs * r + the (digit_val r c)"
  by (simp add: digits_value_def)

lemma digits_value_decimal: "digits_value 10 (decimal n) = n"
proof (induction n rule: decimal.induct)
  case (1 n)
  show ?case
  proof (cases "n < 10")
    case True
    then show ?thesis
      by (simp add: decimal.simps [of n] digits_value_def digit_val_10 is_digit_def)
  next
    case False
    have "is_digit (48 + n mod 10)" by (simp add: is_digit_def)
    with 1 False show ?thesis
      by (simp add: decimal.simps [of n] digits_value_snoc digit_val_10)
  qed
qed

lemma parse_digits_all:
  assumes "ds \<noteq> []" "list_all is_digit ds"
  shows "parse_digits 10 1 ds = Num (int (digits_value 10 ds))"
proof -
  have "\<forall>c \<in> set ds. digit_val 10 c \<noteq> None"
    using assms(2) by (auto simp: list_all_iff digit_val_10)
  then have tw: "takeWhile (\<lambda>c. digit_val 10 c \<noteq> None) ds = ds"
    by (rule takeWhile_eq_all_conv [THEN iffD2])
  show ?thesis
    unfolding parse_digits_def Let_def tw using assms(1) by simp
qed

lemma parseInt_digits:
  assumes "ds \<noteq> []" "list_all is_digit ds"
  shows "parseInt ds = Num (int (digits_value 10 ds))"
proof -
  from assms obtain d ds' where ds: "ds = d # ds'" and d: "is_digit d"
    and ds': "list_all is_digit ds'"
    by (cases ds) auto
  from d have nsp: "\<not> is_js_space d" and nsg: "d \<noteq> 45" "d \<noteq> 43"
    by (auto simp: is_digit_def is_js_space_def)
  have "strip_prefix 1 ds = parse_digits 10 1 ds"
  proof (cases ds')
    case Nil
    with ds show ?thesis by (simp add: strip_prefix_def)
  next
    case (Cons b rest)
    with ds' have "is_digit b" by simp
    then have "b \<noteq> 120" "b \<noteq> 88" by (auto simp: is_digit_def)
    with ds Cons show ?thesis by (simp add: strip_prefix_def)
  qed
  with ds nsp nsg parse_digits_all [OF assms] show ?thesis
    by (simp add: parseInt_def)
qed

lemma parseInt_decimal: "parseInt (decimal n) = Num (int n)"
  using parseInt_digits [of "decimal n"] decimal_digits [of n]
  by (simp add: digits_value_decimal)

lemma group3_comma:
  "list_all is_digit ds \<Longrightarrow>
   remove_commas (group3 [44] ds) = ds \<and> list_all dc (group3 [44] ds)
   \<and> (ds \<noteq> [] \<longrightarrow> group3 [44] ds \<noteq> [])"
proof (induction "[44::nat]" ds rule: group3.induct)
  case (1 ds)
  have nocomma: "\<And>xs. list_all is_digit xs \<Longrightarrow> remove_commas xs = xs"
    by (auto simp: remove_commas_def list_all_iff is_digit_def filter_id_conv)
  have isdc: "\<And>xs. list_all is_digit xs \<Longrightarrow> list_all dc xs"
    by (auto simp: list_all_iff is_digit_def dc_def)
  show ?case
  proof (cases "length ds \<le> 3")
    case True
    with 1(2) show ?thesis by (simp add: group3.simps [of _ ds] nocomma isdc)
  next
    case False
    let ?a = "take (length ds - 3) ds" and ?b = "drop (length ds - 3) ds"
    from 1(2) have a: "list_all is_digit ?a" and b: "list_all is_digit ?b"
      by (auto simp: list_all_iff dest: in_set_takeD in_set_dropD)
    from 1(1) [OF False a] have ih: "remove_commas (group3 [44] ?a) = ?a"
      "list_all dc (group3 [44] ?a)" by simp_all
    have "remove_commas (group3 [44] ds) = remove_commas (group3 [44] ?a) @ remove_commas ?b"
      using False by (simp add: group3.simps [of _ ds] remove_commas_def)
    with ih nocomma [OF b] have "remove_commas (group3 [44] ds) = ds" by simp
    moreover have "list_all dc (group3 [44] ds)"
      using False ih isdc [OF b] by (simp add: group3.simps [of _ ds] dc_def)
    moreover have "group3 [44] ds \<noteq> []"
      using False by (simp add: group3.simps [of _ ds])
    ultimately show ?thesis by simp
  qed
qed

lemma intl_format_comma:
  "intl_format (js '','') (Num (int n)) \<noteq> []
   \<and> list_all dc (intl_format (js '','') (Num (int n)))
   \<and> parseInt (remove_commas (intl_format (js '','') (Num (int n)))) = Num (int n)"
  using group3_comma [of "decimal n"] decimal_digits [of n]
  by (simp add: js_def parseInt_decimal)












section \<open>The locator and the regions\<close>

lemmas region_defs = regions_def positional_regions_def titled_regions_def the_titles_def
  page_of_regions_def find_summaryTable_def find_map_def find_summaryPaneTable_def
  find_summaryPane_def pane_tables_def find_mainPane_def find_leftColumn_def
  find_rightColumn_def find_left_table_def right_tables_def find_titled_def titled_message_def

lemma accountSummaryPage_regions:
  assumes b: "body doc = Some b"
  shows "accountSummaryPage doc =
     (case find (\<lambda>r. snd r = None) (regions doc) of
        Some r \<Rightarrow> Inl (Error (fst r))
      | None \<Rightarrow> Inr (page_of_regions doc))"
proof -
  note defs = accountSummaryPage_def region_defs findTitledTable_def ensure_def
    and_then_simps Let_def
  show ?thesis
  proof (cases "nth_opt (getElementsByTagName doc b ''table'') 0")
    case None
    with b  show ?thesis by (simp add: defs cong: weak_congs)
  next
    case (Some t1)
    note s1 = Some
    show ?thesis
    proof (cases "querySelector doc t1 [[Tag ''map'', AttrEq ''name'' (js ''tab_ac'')]]")
      case None
      with b s1 show ?thesis by (simp add: defs cong: weak_congs)
    next
      case (Some t2)
      note s2 = Some
      show ?thesis
      proof (cases "nextElementSibling doc t2")
        case None
        with b s1 s2 show ?thesis by (simp add: defs cong: weak_congs)
      next
        case (Some t3)
        note s3 = Some
        show ?thesis
        proof (cases "querySelector doc t3 [[Tag ''tbody''], [Tag ''tr''], [Tag ''td'', NthOfType 2]]")
          case None
          with b s1 s2 s3 show ?thesis by (simp add: defs cong: weak_congs)
        next
          case (Some t4)
          note s4 = Some
          show ?thesis
          proof (cases "nth_opt (querySelectorAll doc t4 [[Tag ''table'']]) 0")
            case None
            with b s1 s2 s3 s4 show ?thesis by (simp add: defs cong: weak_congs)
          next
            case (Some t5)
            note s5 = Some
            show ?thesis
            proof (cases "nth_opt (querySelectorAll doc t4 [[Tag ''table'']]) 1")
              case None
              with b s1 s2 s3 s4 s5 show ?thesis by (simp add: defs cong: weak_congs)
            next
              case (Some t6)
              note s6 = Some
              show ?thesis
              proof (cases "nth_opt (querySelectorAll doc t4 [[Tag ''table'']]) 3")
                case None
                with b s1 s2 s3 s4 s5 s6 show ?thesis by (simp add: defs cong: weak_congs)
              next
                case (Some t7)
                note s7 = Some
                show ?thesis
                proof (cases "querySelector doc t7 [[Tag ''tbody''], [Tag ''tr''], [Tag ''td'', NthOfType 1]]")
                  case None
                  with b s1 s2 s3 s4 s5 s6 s7 show ?thesis by (simp add: defs cong: weak_congs)
                next
                  case (Some t8)
                  note s8 = Some
                  show ?thesis
                  proof (cases "querySelector doc t7 [[Tag ''tbody''], [Tag ''tr''], [Tag ''td'', NthOfType 3]]")
                    case None
                    with b s1 s2 s3 s4 s5 s6 s7 s8 show ?thesis by (simp add: defs cong: weak_congs)
                  next
                    case (Some t9)
                    note s9 = Some
                    show ?thesis
                    proof (cases "querySelector doc t8 [[Tag ''table'', NthOfType 1]]")
                      case None
                      with b s1 s2 s3 s4 s5 s6 s7 s8 s9 show ?thesis by (simp add: defs cong: weak_congs)
                    next
                      case (Some t10)
                      note s10 = Some
                      show ?thesis
                      proof (cases "querySelector doc t8 [[Tag ''table'', NthOfType 3]]")
                        case None
                        with b s1 s2 s3 s4 s5 s6 s7 s8 s9 s10 show ?thesis by (simp add: defs cong: weak_congs)
                      next
                        case (Some t11)
                        note s11 = Some
                        show ?thesis
                        proof (cases "querySelector doc t8 [[Tag ''table'', NthOfType 4]]")
                          case None
                          with b s1 s2 s3 s4 s5 s6 s7 s8 s9 s10 s11 show ?thesis by (simp add: defs cong: weak_congs)
                        next
                          case (Some t12)
                          note s12 = Some
                          show ?thesis
                          proof (cases "find (\<lambda>t. tableTitle doc t = Some stockTitle) (querySelectorAll doc t9 [[Tag ''table'']])")
                            case None
                            with b s1 s2 s3 s4 s5 s6 s7 s8 s9 s10 s11 s12 show ?thesis by (simp add: defs cong: weak_congs)
                          next
                            case (Some t13)
                            note s13 = Some
                            show ?thesis
                            proof (cases "find (\<lambda>t. tableTitle doc t = Some fundTitle) (querySelectorAll doc t9 [[Tag ''table'']])")
                              case None
                              with b s1 s2 s3 s4 s5 s6 s7 s8 s9 s10 s11 s12 s13 show ?thesis by (simp add: defs cong: weak_congs)
                            next
                              case (Some t14)
                              note s14 = Some
                              show ?thesis
                              proof (cases "find (\<lambda>t. tableTitle doc t = Some nisaFundTitle) (querySelectorAll doc t9 [[Tag ''table'']])")
                                case None
                                with b s1 s2 s3 s4 s5 s6 s7 s8 s9 s10 s11 s12 s13 s14 show ?thesis by (simp add: defs cong: weak_congs)
                              next
                                case (Some t15)
                                note s15 = Some
                                show ?thesis
                                proof (cases "find (\<lambda>t. tableTitle doc t = Some nisaTsumitateTitle) (querySelectorAll doc t9 [[Tag ''table'']])")
                                  case None
                                  with b s1 s2 s3 s4 s5 s6 s7 s8 s9 s10 s11 s12 s13 s14 s15 show ?thesis by (simp add: defs cong: weak_congs)
                                next
                                  case (Some t16)
                                  note s16 = Some
                                  show ?thesis
                                    using b s1 s2 s3 s4 s5 s6 s7 s8 s9 s10 s11 s12 s13 s14 s15 s16 by (simp add: defs cong: weak_congs)
                                qed
                              qed
                            qed
                          qed
                        qed
                      qed
                    qed
                  qed
                qed
              qed
            qed
          qed
        qed
      qed
    qed
  qed
qed

lemma chain_at_Some:
  "chain_at n p acc = Some ch \<Longrightarrow> \<exists>m rest. ch = m # rest \<and> node_at n p = Some m"
  by (induction p arbitrary: n acc) (auto split: if_splits)

lemma node_at_snoc:
  "node_at n p = Some m \<Longrightarrow> i < length (children m) \<Longrightarrow>
   node_at n (p @ [i]) = Some (children m ! i)"
  by (simp add: node_at_append)

lemma matches_is_element: "matches q sel (i # rp) (c # anc) \<Longrightarrow> is_element c"
proof -
  assume m: "matches q sel (i # rp) (c # anc)"
  then obtain x xs where "rev sel = x # xs"
    by (cases "rev sel") (auto simp: matches_def)
  with m have "matches_compound q c i anc x"
    by (cases xs) (auto simp: matches_def)
  then show ?thesis by (simp add: matches_compound_def)
qed

lemma select_from_elements:
  "node_at doc (rev rp) = Some par \<Longrightarrow> cs = drop i (children par) \<Longrightarrow>
   p \<in> set (select_from q sel i cs rp (par # anc)) \<Longrightarrow> element_at doc p"
proof (induction q sel i cs rp "par # anc" arbitrary: par anc rule: select_from.induct)
  case (1 q sel i rp)
  then show ?case by simp
next
  case (2 q sel i c cs rp)
  from "2.prems"(2) have d: "drop i (children par) = c # cs" by simp
  then have i: "i < length (children par)"
    by (cases "i < length (children par)") simp_all
  from Cons_nth_drop_Suc [OF i] d have c: "children par ! i = c"
    and cs: "cs = drop (Suc i) (children par)"
    by simp_all
  have here: "node_at doc (rev (i # rp)) = Some c"
    using node_at_snoc [OF "2.prems"(1) i] c by simp
  from "2.prems"(3) consider
      "matches q sel (i # rp) (c # par # anc)" "p = rev (i # rp)"
    | "p \<in> set (select_from q sel 0 (children c) (i # rp) (c # par # anc))"
    | "p \<in> set (select_from q sel (Suc i) cs rp (par # anc))"
    by (auto split: if_splits)
  then show ?case
  proof cases
    case 1
    with here matches_is_element show ?thesis by (auto simp: element_at_def)
  next
    case 2
    from "2.hyps"(1) [OF here _ 2] show ?thesis by simp
  next
    case 3
    from "2.hyps"(2) [OF "2.prems"(1) cs 3] show ?thesis by simp
  qed
qed

lemma querySelectorAll_elements:
  "p \<in> set (querySelectorAll doc e sel) \<Longrightarrow> element_at doc p"
proof -
  assume p: "p \<in> set (querySelectorAll doc e sel)"
  then obtain ch where ch: "chain_at doc e [] = Some ch"
    by (cases "chain_at doc e []") (auto simp: querySelectorAll_def)
  from chain_at_Some [OF ch] obtain m rest where m: "ch = m # rest" "node_at doc e = Some m"
    by blast
  from p ch m have "p \<in> set (select_from (quirks_mode doc) sel 0 (children m) (rev e) (m # rest))"
    by (simp add: querySelectorAll_def)
  from select_from_elements [OF _ _ this, of doc] m show ?thesis by simp
qed

lemma nth_opt_mem: "nth_opt xs i = Some p \<Longrightarrow> p \<in> set xs"
  by (auto simp: nth_opt_def split: if_splits)

lemma querySelector_element: "querySelector doc e sel = Some p \<Longrightarrow> element_at doc p"
  by (auto simp: querySelector_def dest!: nth_opt_mem querySelectorAll_elements)

lemma find_summaryTable_element: "find_summaryTable doc = Some p \<Longrightarrow> element_at doc p"
  by (auto simp: find_summaryTable_def getElementsByTagName_def bind_eq_Some_conv
      dest!: nth_opt_mem querySelectorAll_elements)

lemma pane_tables_element: "nth_opt (pane_tables doc) k = Some p \<Longrightarrow> element_at doc p"
  by (auto simp: pane_tables_def split: option.splits dest!: nth_opt_mem querySelectorAll_elements)

lemma find_left_table_element: "find_left_table doc k = Some p \<Longrightarrow> element_at doc p"
  by (auto simp: find_left_table_def bind_eq_Some_conv dest: querySelector_element)

lemma find_titled_Some:
  "find_titled doc title = Some p \<Longrightarrow> element_at doc p \<and> tableTitle doc p = Some title"
  by (auto simp: find_titled_def right_tables_def find_Some_iff split: option.splits
      dest!: querySelectorAll_elements [OF nth_mem])

lemma find_titled_None:
  "find_titled doc title = None \<longleftrightarrow> \<not> list_ex (\<lambda>t. tableTitle doc t = Some title) (right_tables doc)"
  by (auto simp: find_titled_def find_None_iff list_ex_iff)

lemma regions_all_found:
  assumes "find (\<lambda>r. snd r = None) (regions doc) = None"
  shows "list_all (element_at doc) (page_fields (page_of_regions doc))"
proof -
  have s: "find_summaryTable doc \<noteq> None" "nth_opt (pane_tables doc) 0 \<noteq> None"
    "nth_opt (pane_tables doc) 1 \<noteq> None" "find_left_table doc 1 \<noteq> None"
    "find_left_table doc 3 \<noteq> None" "find_left_table doc 4 \<noteq> None"
    "find_titled doc stockTitle \<noteq> None" "find_titled doc fundTitle \<noteq> None"
    "find_titled doc nisaFundTitle \<noteq> None" "find_titled doc nisaTsumitateTitle \<noteq> None"
    using assms
    by (simp_all add: regions_def positional_regions_def titled_regions_def the_titles_def
        split: if_splits)
  then show ?thesis
    by (auto simp: page_fields_def page_of_regions_def
        dest: find_summaryTable_element pane_tables_element find_left_table_element find_titled_Some)
qed

lemma body_examples: "body page_A = Some [0, 0]" "body page_B = Some [0, 0]"
  "body empty_page = Some [0, 0]"
  by (simp_all add: page_A_def page_B_def body_def example_simps cong: weak_congs)

lemma regions_page_A: "find (\<lambda>r. snd r = None) (regions page_A) = None"
  by (simp add: region_defs page_A_def example_simps query_defs all_titles_def titles_distinct
      cong: weak_congs)

lemma regions_empty_page:
  "find (\<lambda>r. snd r = None) (regions empty_page)
     = Some (js ''Top-level table not found'', None)"
  by (simp add: region_defs example_simps query_defs cong: weak_congs)

lemma find_append_None:
  "find P xs = None \<Longrightarrow> find P (xs @ ys) = find P ys"
  by (induction xs) (auto split: if_splits)

lemma positional_examples:
  "list_all (\<lambda>r. snd r \<noteq> None) (positional_regions page_A)"
  "list_all (\<lambda>r. snd r \<noteq> None) (positional_regions page_B)"
  by (simp_all add: region_defs page_A_def page_B_def example_simps query_defs cong: weak_congs)

lemma missing_title_examples:
  "find (\<lambda>title. \<not> list_ex (\<lambda>t. tableTitle page_A t = Some title) (right_tables page_A))
     the_titles = None"
  "find (\<lambda>title. \<not> list_ex (\<lambda>t. tableTitle page_B t = Some title) (right_tables page_B))
     the_titles = Some fundTitle"
  by (simp_all add: region_defs page_A_def page_B_def example_simps query_defs all_titles_def
      titles_distinct cong: weak_congs)

lemma titled_tables_lemma:
  assumes "body doc = Some b"
    and "list_all (\<lambda>r. snd r \<noteq> None) (positional_regions doc)"
  shows "(case find (\<lambda>title. \<not> list_ex (\<lambda>t. tableTitle doc t = Some title) (right_tables doc))
                 the_titles of
            Some title \<Rightarrow>
              accountSummaryPage doc
                = Inl (Error (js ''Table titled '' @ title @ js '' not found''))
          | None \<Rightarrow>
              (\<exists>page. accountSummaryPage doc = Inr page
                 \<and> map (tableTitle doc) (titled_fields page) = map Some the_titles
                 \<and> map Some (titled_fields page)
                     = map (\<lambda>title. find (\<lambda>t. tableTitle doc t = Some title) (right_tables doc))
                         the_titles))"
proof -
  from assms(2) have "find (\<lambda>r. snd r = None) (positional_regions doc) = None"
    by (auto simp: find_None_iff list_all_iff)
  then have f: "find (\<lambda>r. snd r = None) (regions doc)
      = find (\<lambda>r. snd r = None) (titled_regions doc)"
    by (simp add: regions_def find_append_None)
  note r = accountSummaryPage_regions [OF assms(1), unfolded f]
  show ?thesis
  proof (cases "find_titled doc stockTitle")
    case None
    with r show ?thesis
      by (simp add: titled_regions_def the_titles_def titled_message_def
          find_titled_None [symmetric])
  next
    case s1: (Some t1)
    show ?thesis
    proof (cases "find_titled doc fundTitle")
      case None
      with r s1 show ?thesis
        by (simp add: titled_regions_def the_titles_def titled_message_def
            find_titled_None [symmetric])
    next
      case s2: (Some t2)
      show ?thesis
      proof (cases "find_titled doc nisaFundTitle")
        case None
        with r s1 s2 show ?thesis
          by (simp add: titled_regions_def the_titles_def titled_message_def
              find_titled_None [symmetric])
      next
        case s3: (Some t3)
        show ?thesis
        proof (cases "find_titled doc nisaTsumitateTitle")
          case None
          with r s1 s2 s3 show ?thesis
            by (simp add: titled_regions_def the_titles_def titled_message_def
                find_titled_None [symmetric])
        next
          case s4: (Some t4)
          from find_titled_Some [OF s1] find_titled_Some [OF s2] find_titled_Some [OF s3]
            find_titled_Some [OF s4]
          have tt: "tableTitle doc t1 = Some stockTitle" "tableTitle doc t2 = Some fundTitle"
            "tableTitle doc t3 = Some nisaFundTitle" "tableTitle doc t4 = Some nisaTsumitateTitle"
            by simp_all
          have p: "accountSummaryPage doc = Inr (page_of_regions doc)"
            using r s1 s2 s3 s4 by (simp add: titled_regions_def the_titles_def)
          have tf: "titled_fields (page_of_regions doc) = [t1, t2, t3, t4]"
            using s1 s2 s3 s4 by (simp add: titled_fields_def page_of_regions_def)
          have "find (\<lambda>title. \<not> list_ex (\<lambda>t. tableTitle doc t = Some title) (right_tables doc))
                 the_titles = None"
            using s1 s2 s3 s4
            by (simp add: the_titles_def find_titled_None [symmetric])
          moreover have "map Some [t1, t2, t3, t4]
              = map (\<lambda>title. find (\<lambda>t. tableTitle doc t = Some title) (right_tables doc)) the_titles"
            using s1 s2 s3 s4 by (simp add: the_titles_def find_titled_def)
          ultimately show ?thesis
            using p tf tt by (simp add: the_titles_def)
        qed
      qed
    qed
  qed
qed

section \<open>Properties of the amount parser\<close>





text \<open>
  C10: the pattern is searched for anywhere in the text, the text need not be an
  amount as a whole: an amount of 1,234 yen and 5 points with two unrelated words
  and a space before it and a space and two words after it parses to 1234 and 5,
  not to null.
\<close>

theorem parse_embedded_amount:
  "parsePaymentAmount
     ([0x5408, 0x8A08] @ js '' 1,234'' @ [yen] @ js '' (5'' @ pointo @ js '') ''
        @ [0x3067, 0x3059])
     = Some \<lparr> moneyAmount = Num 1234, pointAmount = Num 5 \<rparr>"
  by (simp add: parsePaymentAmount_def amount_re_def digit_or_comma_def js_def yen_def
      pointo_def is_js_space_def remove_commas_def parseInt_def strip_prefix_def
      parse_digits_def digit_val_def digits_value_def)

text \<open>
  C9 says that a parsed amount always holds two non-negative integers. The
  class \<^verbatim>\<open>[0-9,]\<close> also accepts a group made of commas only; nothing is left
  of it once the commas are removed, and \<^verbatim>\<open>parseInt\<close> of the empty string is
  \<^verbatim>\<open>NaN\<close>. A comma followed by the yen sign parses to \<^verbatim>\<open>NaN\<close> and 0. A
  text without the yen sign (\<^verbatim>\<open>N/A\<close>) parses to null.
\<close>

theorem parse_comma_only_is_NaN:
  "parsePaymentAmount (js '','' @ [yen]) = Some \<lparr> moneyAmount = NaN, pointAmount = Num 0 \<rparr>
   \<and> parsePaymentAmount (js ''N/A'') = None"
  by (simp add: parsePaymentAmount_def amount_re_def digit_or_comma_def js_def yen_def
      pointo_def is_js_space_def remove_commas_def parseInt_def strip_prefix_def
      parse_digits_def digit_val_def digits_value_def)
text \<open>
  C4, as amended: where the browser's locale writes integers with the digits 0 to 9
  in groups of three separated by commas (ja-JP, en-US), parsing the formatted text
  of an amount of two non-negative integers gives the amount back.
\<close>

theorem format_parse_roundtrip:
  "parsePaymentAmount (formatPaymentAmount (intl_format (js '','') )
      \<lparr> moneyAmount = Num (int m), pointAmount = Num (int p) \<rparr>)
   = Some \<lparr> moneyAmount = Num (int m), pointAmount = Num (int p) \<rparr>"
proof -
  let ?A = "intl_format (js '','') (Num (int m))"
  let ?B = "intl_format (js '','') (Num (int p))"
  from intl_format_comma [of m] intl_format_comma [of p]
  have a: "?A \<noteq> []" "list_all dc ?A" and b: "?B \<noteq> []" "list_all dc ?B"
    and v: "parseInt (remove_commas ?A) = Num (int m)"
           "parseInt (remove_commas ?B) = Num (int p)"
    by blast+
  from exec_amount_re [OF a b] obtain mt where
    "exec amount_re (?A @ [yen] @ js '' ('' @ ?B @ pointo @ js '')'') = Some mt"
    "mt 1 = Some ?A" "mt 3 = Some ?B"
    by blast
  with v show ?thesis
    by (simp add: parsePaymentAmount_def formatPaymentAmount_def del: intl_format.simps)
qed

text \<open>The round trip at 1,234,567 yen and 50 points.\<close>

theorem format_parse_roundtrip_witness:
  "parsePaymentAmount (formatPaymentAmount (intl_format (js '','') )
      \<lparr> moneyAmount = Num 1234567, pointAmount = Num 50 \<rparr>)
   = Some \<lparr> moneyAmount = Num 1234567, pointAmount = Num 50 \<rparr>"
  using format_parse_roundtrip [of 1234567 50] by simp

text \<open>
  With the full stop as the separator (de-DE) the money amount 1234 is written
  \<^verbatim>\<open>1.234\<close>, in which the pattern finds \<^verbatim>\<open>234\<close>: the round trip
  fails.
\<close>

theorem format_parse_full_stop_counterexample:
  "parsePaymentAmount (formatPaymentAmount (intl_format (js ''.''))
      \<lparr> moneyAmount = Num 1234, pointAmount = Num 5 \<rparr>)
   = Some \<lparr> moneyAmount = Num 234, pointAmount = Num 5 \<rparr>
   \<and> parsePaymentAmount (formatPaymentAmount (intl_format (js ''.''))
      \<lparr> moneyAmount = Num 1234, pointAmount = Num 5 \<rparr>)
   \<noteq> Some \<lparr> moneyAmount = Num 1234, pointAmount = Num 5 \<rparr>"
  by (simp add: parsePaymentAmount_def formatPaymentAmount_def decimal.simps group3.simps
      amount_re_def digit_or_comma_def js_def yen_def
      pointo_def is_js_space_def remove_commas_def parseInt_def strip_prefix_def
      parse_digits_def digit_val_def digits_value_def)

text \<open>
  C6, as amended: the totals row, the last row of the rendered table, shows the
  formatted sums of the money amounts and of the point amounts. Where the amounts
  are natural numbers whose sums are at most \<open>2^53\<close>, these are the exact sums;
  for no orders they are 0 and 0; in general they are the sums that the addition
  of doubles accumulates from 0 in the order of the list.
\<close>

theorem totals_row_shows_sum:
  \<open>(sum_list (map (\<lambda>x. fst (snd (snd x))) xs) \<le> 2 ^ 53
      \<and> sum_list (map (\<lambda>x. snd (snd (snd x))) xs) \<le> 2 ^ 53 \<longrightarrow>
    last (children (buildOrderTable format (map order_of xs))) =
      Element ''tr'' [(''style.backgroundColor'', js ''#e6e5ff'')]
        [Markup (js ''<td class="mtext"><b>'' @ [0x8A08] @ js ''</b></td><td></td><td class="mtext">''
                 @ format (Num (int (sum_list (map (\<lambda>x. fst (snd (snd x))) xs))))
                 @ [0x5186] @ js '' (''
                 @ format (Num (int (sum_list (map (\<lambda>x. snd (snd (snd x))) xs))))
                 @ [0x30DD, 0x30A4, 0x30F3, 0x30C8] @ js '')'' @ js ''</td>'')])
   \<and> last (children (buildOrderTable format [])) =
      Element ''tr'' [(''style.backgroundColor'', js ''#e6e5ff'')]
        [Markup (js ''<td class="mtext"><b>'' @ [0x8A08] @ js ''</b></td><td></td><td class="mtext">''
                 @ format (Num 0) @ [0x5186] @ js '' ('' @ format (Num 0)
                 @ [0x30DD, 0x30A4, 0x30F3, 0x30C8] @ js '')'' @ js ''</td>'')]
   \<and> last (children (buildOrderTable format orders)) =
      Element ''tr'' [(''style.backgroundColor'', js ''#e6e5ff'')]
        [Markup (js ''<td class="mtext"><b>'' @ [0x8A08] @ js ''</b></td><td></td><td class="mtext">''
                 @ format (foldl jsadd (Num 0) (map (\<lambda>order. moneyAmount (amount order)) orders))
                 @ [0x5186] @ js '' (''
                 @ format (foldl jsadd (Num 0) (map (\<lambda>order. pointAmount (amount order)) orders))
                 @ [0x30DD, 0x30A4, 0x30F3, 0x30C8] @ js '')'' @ js ''</td>'')]\<close>
proof (intro conjI impI)
  show \<open>last (children (buildOrderTable format orders)) =
      Element ''tr'' [(''style.backgroundColor'', js ''#e6e5ff'')]
        [Markup (js ''<td class="mtext"><b>'' @ [0x8A08] @ js ''</b></td><td></td><td class="mtext">''
                 @ format (foldl jsadd (Num 0) (map (\<lambda>order. moneyAmount (amount order)) orders))
                 @ [0x5186] @ js '' (''
                 @ format (foldl jsadd (Num 0) (map (\<lambda>order. pointAmount (amount order)) orders))
                 @ [0x30DD, 0x30A4, 0x30F3, 0x30C8] @ js '')'' @ js ''</td>'')]\<close>
    by (simp add: last_buildOrderTable summaryRow_def formatPaymentAmount_def yen_def pointo_def)
  show \<open>last (children (buildOrderTable format [])) =
      Element ''tr'' [(''style.backgroundColor'', js ''#e6e5ff'')]
        [Markup (js ''<td class="mtext"><b>'' @ [0x8A08] @ js ''</b></td><td></td><td class="mtext">''
                 @ format (Num 0) @ [0x5186] @ js '' ('' @ format (Num 0)
                 @ [0x30DD, 0x30A4, 0x30F3, 0x30C8] @ js '')'' @ js ''</td>'')]\<close>
    by (simp add: last_buildOrderTable summaryRow_def formatPaymentAmount_def yen_def pointo_def)
  assume s: "sum_list (map (\<lambda>x. fst (snd (snd x))) xs) \<le> 2 ^ 53
      \<and> sum_list (map (\<lambda>x. snd (snd (snd x))) xs) \<le> 2 ^ 53"
  have m: "map (\<lambda>order. moneyAmount (amount order)) (map order_of xs)
      = map (\<lambda>x. Num (int x)) (map (\<lambda>x. fst (snd (snd x))) xs)"
    and p: "map (\<lambda>order. pointAmount (amount order)) (map order_of xs)
      = map (\<lambda>x. Num (int x)) (map (\<lambda>x. snd (snd (snd x))) xs)"
    by (simp_all add: order_of_def split_def)
  from s foldl_jsadd_safe [of 0 "map (\<lambda>x. fst (snd (snd x))) xs"]
    foldl_jsadd_safe [of 0 "map (\<lambda>x. snd (snd (snd x))) xs"]
  have "foldl jsadd (Num 0) (map (\<lambda>x. Num (int x)) (map (\<lambda>x. fst (snd (snd x))) xs))
      = Num (int (sum_list (map (\<lambda>x. fst (snd (snd x))) xs)))"
    "foldl jsadd (Num 0) (map (\<lambda>x. Num (int x)) (map (\<lambda>x. snd (snd (snd x))) xs))
      = Num (int (sum_list (map (\<lambda>x. snd (snd (snd x))) xs)))"
    by simp_all
  then show \<open>last (children (buildOrderTable format (map order_of xs))) =
      Element ''tr'' [(''style.backgroundColor'', js ''#e6e5ff'')]
        [Markup (js ''<td class="mtext"><b>'' @ [0x8A08] @ js ''</b></td><td></td><td class="mtext">''
                 @ format (Num (int (sum_list (map (\<lambda>x. fst (snd (snd x))) xs))))
                 @ [0x5186] @ js '' (''
                 @ format (Num (int (sum_list (map (\<lambda>x. snd (snd (snd x))) xs))))
                 @ [0x30DD, 0x30A4, 0x30F3, 0x30C8] @ js '')'' @ js ''</td>'')]\<close>
    unfolding last_buildOrderTable m p
    by (simp add: summaryRow_def formatPaymentAmount_def yen_def pointo_def)
qed


text \<open>Two orders of 1000 yen with 5 points and of 234 yen: the row shows 1,234 and 5.\<close>

theorem totals_row_shows_sum_witness:
  \<open>last (children (buildOrderTable comma_format
       (map order_of [(js ''Fund A'', js ''open'', 1000, 5), (js ''Fund B'', js ''held'', 234, 0)]))) =
      Element ''tr'' [(''style.backgroundColor'', js ''#e6e5ff'')]
        [Markup (js ''<td class="mtext"><b>'' @ [0x8A08] @ js ''</b></td><td></td><td class="mtext">''
                 @ js ''1,234'' @ [0x5186] @ js '' (5'' @ [0x30DD, 0x30A4, 0x30F3, 0x30C8]
                 @ js '')</td>'')]\<close>
  using totals_row_shows_sum [of "[(js ''Fund A'', js ''open'', 1000, 5), (js ''Fund B'', js ''held'', 234, 0)]"
      comma_format "[]"]
  by (simp add: format_defs)

text \<open>
  Two orders of \<open>2^53\<close> yen and of 1 yen: the sum of the doubles is \<open>2^53\<close>, and
  the row shows 9,007,199,254,740,992, which is not the sum of the two integers.
\<close>

theorem totals_row_rounds_counterexample:
  \<open>last (children (buildOrderTable comma_format
       (map order_of [(js ''Fund A'', js ''open'', 9007199254740992, 0),
                      (js ''Fund B'', js ''held'', 1, 0)]))) =
      Element ''tr'' [(''style.backgroundColor'', js ''#e6e5ff'')]
        [Markup (js ''<td class="mtext"><b>'' @ [0x8A08] @ js ''</b></td><td></td><td class="mtext">''
                 @ js ''9,007,199,254,740,992'' @ [0x5186] @ js '' (0''
                 @ [0x30DD, 0x30A4, 0x30F3, 0x30C8] @ js '')</td>'')]
   \<and> (9007199254740992 :: int) + 1 = 9007199254740993\<close>
  by (simp add: last_buildOrderTable order_of_def summaryRow_def formatPaymentAmount_def
      yen_def pointo_def double_of_int_def round_nat_def bitlen.simps Let_def format_defs)

text \<open>
  C1, as amended: the handler appends the new table to the parent of the anchor
  (the valuation table), as the last child: the children of the parent afterwards
  are its children before, followed by the new table. The table is a sibling of
  the anchor within the same parent, and it comes right after the anchor only
  when the anchor was the last child. With an anchor that has no parent the
  handler fails.
\<close>

theorem render_appends_to_parent:
  "(valuationTable (leftColumn (mainPane page)) = [] \<longrightarrow>
      thenHandler format page document orders = Inl TypeError)
   \<and> (valuationTable (leftColumn (mainPane page)) = parent @ [i]
        \<and> node_at document parent = Some p \<and> i < length (children p) \<longrightarrow>
      (\<exists>document' p'. thenHandler format page document orders = Inr document'
         \<and> node_at document' parent = Some p'
         \<and> children p' = children p @ [buildOrderTable format orders]))"
proof (intro conjI impI)
  assume "valuationTable (leftColumn (mainPane page)) = []"
  then show "thenHandler format page document orders = Inl TypeError"
    by (simp add: thenHandler_def parentNode_def)
next
  assume "valuationTable (leftColumn (mainPane page)) = parent @ [i]
        \<and> node_at document parent = Some p \<and> i < length (children p)"
  then show "\<exists>document' p'. thenHandler format page document orders = Inr document'
         \<and> node_at document' parent = Some p'
         \<and> children p' = children p @ [buildOrderTable format orders]"
    using thenHandler_appends [of page parent i document p format orders] by auto
qed

text \<open>
  On the example page the left column has five tables; afterwards it has the five
  and the new table. With the root as the anchor the handler fails.
\<close>

theorem render_appends_to_parent_witness:
  "thenHandler comma_format
      (located_A \<lparr> mainPane := (mainPane located_A) \<lparr> leftColumn :=
         (leftColumn (mainPane located_A)) \<lparr> valuationTable := [] \<rparr> \<rparr> \<rparr>) page_A [] = Inl TypeError
   \<and> (\<exists>document' p'. thenHandler comma_format located_A page_A [] = Inr document'
         \<and> node_at document' left_path = Some p'
         \<and> children p' = [plain_table, plain_table, plain_table, plain_table, plain_table,
                           buildOrderTable comma_format []])"
proof -
  have a: "valuationTable (leftColumn (mainPane located_A)) = left_path @ [3]"
    by (simp add: located_A_def)
  have b: "3 < length (children (left_cell [plain_table]))"
    by (simp add: example_simps)
  from render_appends_to_parent [of "located_A \<lparr> mainPane := (mainPane located_A) \<lparr> leftColumn :=
         (leftColumn (mainPane located_A)) \<lparr> valuationTable := [] \<rparr> \<rparr> \<rparr>" comma_format page_A "[]"]
  have "thenHandler comma_format
      (located_A \<lparr> mainPane := (mainPane located_A) \<lparr> leftColumn :=
         (leftColumn (mainPane located_A)) \<lparr> valuationTable := [] \<rparr> \<rparr> \<rparr>) page_A [] = Inl TypeError"
    by simp
  moreover from render_appends_to_parent [of located_A comma_format page_A "[]" left_path 3
      "left_cell [plain_table]"] a b left_cell_A
  have "\<exists>document' p'. thenHandler comma_format located_A page_A [] = Inr document'
         \<and> node_at document' left_path = Some p'
         \<and> children p' = [plain_table, plain_table, plain_table, plain_table, plain_table,
                           buildOrderTable comma_format []]"
    by (simp add: example_simps)
  ultimately show ?thesis by simp
qed

text \<open>
  On the example page the anchor is child 3 of the left column and another table
  follows it. After the run child 4 is still that other table, and the new table
  is child 5: it is not placed right after the anchor.
\<close>

theorem render_not_next_to_anchor_counterexample:
  "map_sum id (\<lambda>page. valuationTable (leftColumn (mainPane page))) (accountSummaryPage page_A)
     = Inr (left_path @ [3])
   \<and> result_node (main comma_format page_A (orders_page False [])) (left_path @ [4]) = Some plain_table
   \<and> result_node (main comma_format page_A (orders_page False [])) (left_path @ [5])
     = Some (buildOrderTable comma_format [])"
proof -
  have a: "valuationTable (leftColumn (mainPane located_A)) = left_path @ [3]"
    by (simp add: located_A_def)
  have b: "3 < length (children (left_cell [plain_table]))"
    by (simp add: example_simps)
  from thenHandler_appends [OF a left_cell_A b, of comma_format "[]"]
  obtain d where d: "thenHandler comma_format located_A page_A [] = Inr d"
    and n: "node_at d left_path = Some (appendChild (left_cell [plain_table]) (buildOrderTable comma_format []))"
    and c: "children (appendChild (left_cell [plain_table]) (buildOrderTable comma_format []))
       = children (left_cell [plain_table]) @ [buildOrderTable comma_format []]"
    by blast
  have m: "main comma_format page_A (orders_page False []) = Inr d"
    by (simp add: main_def located_page_A no_orders and_then_simps d)
  show ?thesis
    by (simp add: m located_page_A a result_node_def node_at_append n c example_simps)
qed

text \<open>
  C5, as amended: where the orders table is found, has an even number of body rows
  and every row has three cells or more, the extraction returns, without an error,
  the orders of exactly the pairs of rows whose amount parses, in the order of the
  rows; a pair whose amount does not parse is skipped.
\<close>

theorem extract_parseable_pairs:
  assumes "querySelector root [] [[Tag ''table'', HasClass (js ''md-l-table-01'')]] = Some table"
    and "even (length (querySelectorAll root table [[Tag ''tbody''], [Tag ''tr'']]))"
    and "list_all (complete_pair root)
           (pairs (querySelectorAll root table [[Tag ''tbody''], [Tag ''tr'']]))"
  shows "fetchFundOrders root =
           Inr (List.map_filter (order_of_pair root)
                  (pairs (querySelectorAll root table [[Tag ''tbody''], [Tag ''tr'']])))"
  using assms fundOrdersLoop_pairs [of "querySelectorAll root table [[Tag ''tbody''], [Tag ''tr'']]" 0 root "[]"]
  by (simp add: fetchFundOrders_def)


text \<open>
  Three pairs of rows, the amount of the second a dash: two orders, the first
  and the third, in that order.
\<close>

theorem extract_parseable_pairs_witness:
  "fetchFundOrders (orders_page True three_pairs) =
     Inr [\<lparr> name = js ''Fund A'', status = js ''open'',
            amount = \<lparr> moneyAmount = Num 1000, pointAmount = Num 0 \<rparr> \<rparr>,
          \<lparr> name = js ''Fund C'', status = js ''done'',
            amount = \<lparr> moneyAmount = Num 30, pointAmount = Num 2 \<rparr> \<rparr>]"
proof -
  have c: "list_all (complete_pair (orders_page True three_pairs))
      (pairs (querySelectorAll (orders_page True three_pairs) [0, 0, 0] [[Tag ''tbody''], [Tag ''tr'']]))"
    unfolding three_pairs_rows
    by (simp add: complete_pair_def cells_def example_simps query_defs three_pairs_def
        header_cells_def data_cells_def cong: weak_congs)
  have e: "even (length (querySelectorAll (orders_page True three_pairs) [0, 0, 0] [[Tag ''tbody''], [Tag ''tr'']]))"
    unfolding three_pairs_rows by simp
  show ?thesis
    unfolding extract_parseable_pairs [OF three_pairs_table e c] three_pairs_rows
    by (simp add: List.map_filter_simps order_of_pair_def cells_def example_simps query_defs
        three_pairs_def header_cells_def data_cells_def parse_defs cong: weak_congs)
qed

text \<open>
  Not every table is read in this way. A pair whose amount is a dash, which does
  not parse, and whose header row has one cell only is not skipped: reading the
  name from the third cell of the header row throws. So does a table of five
  rows, at the header row that is left over.
\<close>

theorem short_header_row_counterexample:
  "fetchFundOrders (orders_page True short_header) = Inl TypeError
   \<and> parsePaymentAmount (js ''-'') = None
   \<and> fetchFundOrders (orders_page True five_rows) = Inl TypeError"
  by (simp add: fetchFundOrders_def fundOrdersLoop.simps example_simps query_defs
      short_header_def five_rows_def header_cells_def data_cells_def parse_defs
      is_ascii_space_def ascii_lower_def cong: weak_congs)

text \<open>
  C2 asks that a last header row without a data row ends the extraction and that
  the orders found so far are returned. In the code \<^verbatim>\<open>rows[i+1]\<close> is then
  \<^verbatim>\<open>undefined\<close> and \<^verbatim>\<open>dataRow.querySelectorAll\<close> throws: a table of one
  row, and a table of a complete pair and one more row, both end in a
  \<open>TypeError\<close>, and no orders are returned.
\<close>

theorem dangling_header_row_throws:
  "fetchFundOrders (orders_page q one_row) = Inl TypeError
   \<and> fetchFundOrders (orders_page q three_rows) = Inl TypeError"
  by (simp add: fetchFundOrders_def fundOrdersLoop.simps example_simps query_defs
      one_row_def three_rows_def header_cells_def data_cells_def parse_defs is_ascii_space_def
      ascii_lower_def
      cong: weak_congs)

text \<open>
  C3: for a document with a body, the locator either returns a page in which every
  one of the ten references is an element of the document, or throws the error
  that names the first region, in the order of the lookups, that is not found.
  Nothing is returned in that case: the result is the error alone.
\<close>

theorem locate_all_or_nothing:
  assumes "body doc = Some b"
  shows "(case find (\<lambda>r. snd r = None) (regions doc) of
            Some r \<Rightarrow> accountSummaryPage doc = Inl (Error (fst r))
          | None \<Rightarrow> (\<exists>page. accountSummaryPage doc = Inr page
                        \<and> list_all (element_at doc) (page_fields page)))"
proof (cases "find (\<lambda>r. snd r = None) (regions doc)")
  case None
  with accountSummaryPage_regions [OF assms] regions_all_found [OF None] show ?thesis
    by simp
next
  case (Some r)
  with accountSummaryPage_regions [OF assms] show ?thesis by simp
qed

text \<open>
  The example page is located and all its references are elements; a page with
  an empty body fails at the first lookup.
\<close>

theorem locate_all_or_nothing_witness:
  "(\<exists>page. accountSummaryPage page_A = Inr page
             \<and> list_all (element_at page_A) (page_fields page))
   \<and> accountSummaryPage empty_page = Inl (Error (js ''Top-level table not found''))"
  using locate_all_or_nothing [OF body_examples(1)] locate_all_or_nothing [OF body_examples(3)]
  by (simp add: regions_page_A regions_empty_page)

text \<open>
  C7: where the regions found by position are all there, the four tables of the
  right column are found by their title: each is the first table of the right
  column for which the text content of its first row (\<^verbatim>\<open>tr:first-of-type\<close>) is
  exactly the wanted title. If for one of the four titles no table of the right
  column has a first row with exactly that text, the locator throws the error
  that names the title (the first such title, in the order of the lookups).
\<close>

theorem titled_tables_by_exact_title:
  assumes "body doc = Some b"
    and "list_all (\<lambda>r. snd r \<noteq> None) (positional_regions doc)"
  shows "(case find (\<lambda>title. \<not> list_ex
                  (\<lambda>t. map_option (textContent_at doc)
                         (querySelector doc t [[Tag ''tr'', NthOfType 1]]) = Some title)
                  (right_tables doc))
                 the_titles of
            Some title \<Rightarrow>
              accountSummaryPage doc
                = Inl (Error (js ''Table titled '' @ title @ js '' not found''))
          | None \<Rightarrow>
              (\<exists>page. accountSummaryPage doc = Inr page
                 \<and> map (\<lambda>t. map_option (textContent_at doc)
                              (querySelector doc t [[Tag ''tr'', NthOfType 1]]))
                       (titled_fields page)
                     = map Some the_titles
                 \<and> map Some (titled_fields page)
                     = map (\<lambda>title. find
                              (\<lambda>t. map_option (textContent_at doc)
                                     (querySelector doc t [[Tag ''tr'', NthOfType 1]])
                                   = Some title)
                              (right_tables doc))
                         the_titles))"
  using titled_tables_lemma [OF assms] unfolding tableTitle_def .

text \<open>
  In the example pages every titled table has a second row with other text. The
  page without the table of investment trusts fails with the message that holds
  that title; on the complete page the four tables are the four children of the
  right column, and the text of the first row of each is its title.
\<close>

theorem titled_tables_by_exact_title_witness:
  "accountSummaryPage page_B = Inl (Error (js ''Table titled '' @ fundTitle @ js '' not found''))
   \<and> (\<exists>page. accountSummaryPage page_A = Inr page
          \<and> titled_fields page
              = [right_path @ [0], right_path @ [1], right_path @ [2], right_path @ [3]]
          \<and> map (\<lambda>t. map_option (textContent_at page_A)
                       (querySelector page_A t [[Tag ''tr'', NthOfType 1]]))
                (titled_fields page)
              = [Some stockTitle, Some fundTitle, Some nisaFundTitle, Some nisaTsumitateTitle])"
proof -
  have m: "find (\<lambda>title. \<not> list_ex
                  (\<lambda>t. map_option (textContent_at page_A)
                         (querySelector page_A t [[Tag ''tr'', NthOfType 1]]) = Some title)
                  (right_tables page_A)) the_titles = None"
    "find (\<lambda>title. \<not> list_ex
                  (\<lambda>t. map_option (textContent_at page_B)
                         (querySelector page_B t [[Tag ''tr'', NthOfType 1]]) = Some title)
                  (right_tables page_B)) the_titles = Some fundTitle"
    using missing_title_examples unfolding tableTitle_def by simp_all
  from titled_tables_by_exact_title [OF body_examples(2) positional_examples(2)]
  have "accountSummaryPage page_B
      = Inl (Error (js ''Table titled '' @ fundTitle @ js '' not found''))"
    by (simp only: m option.case)
  moreover from titled_tables_by_exact_title [OF body_examples(1) positional_examples(1)]
  obtain page where "accountSummaryPage page_A = Inr page"
    "map (\<lambda>t. map_option (textContent_at page_A)
                       (querySelector page_A t [[Tag ''tr'', NthOfType 1]]))
                (titled_fields page)
              = map Some the_titles"
    unfolding m by auto
  moreover from this(1) located_page_A have "page = located_A" by simp
  then have "titled_fields page
      = [right_path @ [0], right_path @ [1], right_path @ [2], right_path @ [3]]"
    by (simp add: located_A_def titled_fields_def)
  ultimately show ?thesis by (auto simp: the_titles_def)
qed


end
